theory Spec2Isabelle
  imports Main
begin

section \<open>The deploy_with_rollback module\<close>

text \<open>
  A shallow embedding of
  \<^verbatim>\<open>lessons/04-ansible/267-ansible-advanced-automation/library/deploy_with_rollback.py\<close>:
  the class \<open>ApplicationDeployer\<close> and \<open>main\<close>.

  The module works on a directory \<open>app_path\<close> holding \<open>releases/name\<close> entries and
  a \<open>current\<close> entry, and talks to the outside through \<open>subprocess.run\<close>
  (wget, tar, systemctl), \<open>requests.get\<close>, \<open>time.time\<close> and \<open>time.sleep\<close>.
  The filesystem, the clock and the two fields of the deployer object are one record that
  every method takes and returns; what the outside answers is an \<open>env\<close> of functions of
  the history of calls so far (so the same command may answer differently the second time).
  Every mutating or external call is logged in \<open>trace\<close>, newest first.

  Scope of the model.
  \<^item> Paths are strings, joined and split as \<open>posixpath\<close> does. Entries under
    \<open>releases/\<close> are looked up by name: the model is about version names that are one plain
    path component.
  \<^item> An entry under \<open>releases/\<close> is a directory or a regular file with its modification
    time; what is inside a release directory is not tracked (the module never reads it).
  \<^item> Clock readings and modification times are integers (seconds); the clock moves at
    \<open>time.sleep\<close> and by the duration the environment gives each external call.
  \<^item> Failures modelled: a subprocess returning non-zero or failing to start, a probe
    answering anything but 200 or raising, \<open>shutil.rmtree\<close> raising in
    \<open>cleanup_old_versions\<close>, \<open>shutil.rmtree\<close> raising on a regular file at
    \<open>current\<close>, the \<open>raise\<close> in \<open>deploy\<close> and every \<open>fail_json\<close>. The other
    filesystem calls are taken to succeed.
  \<^item> \<open>AnsibleModule.fail_json\<close> reports the message and leaves through
    \<open>sys.exit\<close>: it is a \<open>SystemExit\<close>, which no \<open>except Exception\<close>
    catches.
\<close>

subsection \<open>Data\<close>

datatype event =
    Makedirs string
  | Run "string list"
  | Remove string
  | Rmtree string
  | Symlink string string
  | Sleep int
  | HttpGet string

datatype proc_result = Returned (returncode: int) (stderr: string) | SpawnError string

datatype http_result = Status int | RequestError

datatype failure = PyException string | FailJson string

datatype node = Directory (mtime: int) | Regular (mtime: int)

datatype link = NoEntry | Link string | Tree | File

record world =
  releases :: "(string \<times> node) list option"
  current :: link
  clock :: int
  trace :: "event list"
  changed :: bool
  deployment_start_time :: int

record env =
  run :: "event list \<Rightarrow> string list \<Rightarrow> proc_result"
  http_get :: "event list \<Rightarrow> string \<Rightarrow> http_result"
  elapsed :: "event list \<Rightarrow> nat"
  rmtree_fails :: "event list \<Rightarrow> string \<Rightarrow> bool"

record params =
  app_name :: string
  app_path :: string
  version :: string
  artifact_url :: "string option"
  health_check_url :: "string option"
  health_check_timeout :: int
  rollback_on_failure :: bool
  keep_versions :: int
  service_name :: "string option"

record result =
  r_changed :: bool
  version_deployed :: "string option"
  rollback_occurred :: bool
  deployment_time :: int
  health_check_status :: string
  previous_version :: "string option"

text \<open>
  \<open>releases = None\<close>: the directory \<open>app_path/releases\<close> does not exist; otherwise its
  entries in \<open>os.listdir\<close> order. \<open>current\<close>: nothing at \<open>app_path/current\<close>, a symbolic
  link with its target, a directory tree that is not a link, or a regular file (any other
  entry that is neither a link nor a directory behaves the same). In \<open>result\<close>,
  \<open>previous_version = None\<close> is the key left out of the dictionary.
\<close>

subsection \<open>Paths and Python values\<close>

definition join :: "string \<Rightarrow> string \<Rightarrow> string" where
  "join a b =
     (if b \<noteq> [] \<and> hd b = CHR ''/'' then b
      else if a = [] \<or> last a = CHR ''/'' then a @ b
      else a @ ''/'' @ b)"

definition basename :: "string \<Rightarrow> string" where
  "basename p = rev (takeWhile (\<lambda>c. c \<noteq> CHR ''/'') (rev p))"

definition releases_dir :: "params \<Rightarrow> string" where
  "releases_dir p = join (app_path p) ''releases''"

definition release_path :: "params \<Rightarrow> string \<Rightarrow> string" where
  "release_path p v = join (releases_dir p) v"

definition current_link :: "params \<Rightarrow> string" where
  "current_link p = join (app_path p) ''current''"

text \<open>Truth value of an optional string: \<open>None\<close> and the empty string are false.\<close>

fun truthy :: "string option \<Rightarrow> bool" where
  "truthy None = False"
| "truthy (Some s) = (s \<noteq> [])"

fun str_of :: "string option \<Rightarrow> string" where
  "str_of None = []"
| "str_of (Some s) = s"

text \<open>\<open>xs[k:]\<close>: a negative \<open>k\<close> counts from the end.\<close>

definition slice_from :: "int \<Rightarrow> 'a list \<Rightarrow> 'a list" where
  "slice_from k xs =
     (if 0 \<le> k then drop (nat k) xs else drop (nat (int (length xs) + k)) xs)"

text \<open>
  \<open>xs.sort(key=lambda x: x[1], reverse=True)\<close>: stable, so entries with equal keys keep
  their order.
\<close>

definition sort_newest_first :: "(string \<times> int) list \<Rightarrow> (string \<times> int) list" where
  "sort_newest_first xs = rev (sort_key snd (rev xs))"

subsection \<open>Primitive calls\<close>

definition log :: "event \<Rightarrow> world \<Rightarrow> world" where
  "log e w = w\<lparr>trace := e # trace w\<rparr>"

definition entries :: "world \<Rightarrow> (string \<times> node) list" where
  "entries w = (case releases w of None \<Rightarrow> [] | Some es \<Rightarrow> es)"

definition release_exists :: "world \<Rightarrow> string \<Rightarrow> bool" where
  "release_exists w v = (map_of (entries w) v \<noteq> None)"

definition subprocess_run :: "env \<Rightarrow> string list \<Rightarrow> world \<Rightarrow> proc_result \<times> world" where
  "subprocess_run en cmd w =
     (run en (trace w) cmd,
      w\<lparr>trace := Run cmd # trace w, clock := clock w + int (elapsed en (trace w))\<rparr>)"

definition requests_get :: "env \<Rightarrow> string \<Rightarrow> world \<Rightarrow> http_result \<times> world" where
  "requests_get en url w =
     (http_get en (trace w) url,
      w\<lparr>trace := HttpGet url # trace w, clock := clock w + int (elapsed en (trace w))\<rparr>)"

definition sleep :: "int \<Rightarrow> world \<Rightarrow> world" where
  "sleep n w = w\<lparr>trace := Sleep n # trace w, clock := clock w + n\<rparr>"

text \<open>\<open>os.makedirs(releases_dir, exist_ok=True)\<close>\<close>

definition makedirs_releases :: "params \<Rightarrow> world \<Rightarrow> world" where
  "makedirs_releases p w =
     log (Makedirs (releases_dir p))
       (case releases w of None \<Rightarrow> w\<lparr>releases := Some []\<rparr> | Some es \<Rightarrow> w)"

text \<open>
  \<open>os.makedirs(version_dir, exist_ok=True)\<close>, called only where the entry does not exist:
  the new directory (and \<open>releases/\<close> when missing) is created, stamped with the clock.
\<close>

definition makedirs_version :: "params \<Rightarrow> world \<Rightarrow> world" where
  "makedirs_version p w =
     log (Makedirs (release_path p (version p)))
       (w\<lparr>releases := Some (entries w @ [(version p, Directory (clock w))])\<rparr>)"

text \<open>
  \<open>os.remove(version_dir/app.tar.gz)\<close>: the directory's listing changes, so its
  modification time becomes the clock's.
\<close>

definition remove_archive :: "params \<Rightarrow> world \<Rightarrow> world" where
  "remove_archive p w =
     log (Remove (release_path p (version p) @ ''/app.tar.gz''))
       (w\<lparr>releases := map_option
             (map (\<lambda>(n, d). if n = version p then (n, Directory (clock w)) else (n, d)))
             (releases w)\<rparr>)"

text \<open>
  The block shared by \<open>create_symlink\<close> and \<open>rollback\<close>:
  \<^verbatim>\<open>
  if os.path.islink(current_link): os.remove(current_link)
  elif os.path.exists(current_link): shutil.rmtree(current_link)
  \<close>
  On a regular file \<open>shutil.rmtree\<close> raises \<open>NotADirectoryError\<close> and removes nothing;
  the text of the error is written \<open>[Errno 20] Not a directory: path\<close>.
\<close>

definition clear_current :: "params \<Rightarrow> world \<Rightarrow> failure \<times> world + world" where
  "clear_current p w =
     (case current w of
        Link t \<Rightarrow> Inr (log (Remove (current_link p)) (w\<lparr>current := NoEntry\<rparr>))
      | Tree \<Rightarrow> Inr (log (Rmtree (current_link p)) (w\<lparr>current := NoEntry\<rparr>))
      | File \<Rightarrow>
          Inl (PyException (''[Errno 20] Not a directory: '' @ current_link p),
               log (Rmtree (current_link p)) w)
      | NoEntry \<Rightarrow> Inr w)"

definition os_symlink :: "string \<Rightarrow> string \<Rightarrow> world \<Rightarrow> world" where
  "os_symlink src dst w = log (Symlink src dst) (w\<lparr>current := Link src\<rparr>)"

subsection \<open>ApplicationDeployer\<close>

definition init_deployer :: "world \<Rightarrow> world" where
  "init_deployer w = w\<lparr>changed := False, deployment_start_time := clock w\<rparr>"

definition get_current_version :: "params \<Rightarrow> world \<Rightarrow> string option" where
  "get_current_version p w =
     (case current w of Link t \<Rightarrow> Some (basename t) | _ \<Rightarrow> None)"

definition wget_cmd :: "params \<Rightarrow> string list" where
  "wget_cmd p =
     [''wget'', ''-O'', release_path p (version p) @ ''/app.tar.gz'', str_of (artifact_url p)]"

definition tar_cmd :: "params \<Rightarrow> string list" where
  "tar_cmd p =
     [''tar'', ''-xzf'', release_path p (version p) @ ''/app.tar.gz'', ''-C'',
      release_path p (version p), ''--strip-components=1'']"

definition download_artifact :: "params \<Rightarrow> env \<Rightarrow> world \<Rightarrow> failure \<times> world + bool \<times> world" where
  "download_artifact p en w =
     (if \<not> truthy (artifact_url p) then Inr (True, w)
      else if release_exists w (version p) then Inr (True, w)
      else
        let w1 = makedirs_version p w in
        case subprocess_run en (wget_cmd p) w1 of
          (SpawnError e, w2) \<Rightarrow>
            Inl (FailJson (''Failed to download/extract artifact: '' @ e), w2)
        | (Returned rc err, w2) \<Rightarrow>
            if rc \<noteq> 0 then Inl (FailJson (''Failed to download artifact: '' @ err), w2)
            else
              (case subprocess_run en (tar_cmd p) w2 of
                 (SpawnError e, w3) \<Rightarrow>
                   Inl (FailJson (''Failed to download/extract artifact: '' @ e), w3)
               | (Returned rc' err', w3) \<Rightarrow>
                   if rc' \<noteq> 0
                   then Inl (FailJson (''Failed to extract artifact: '' @ err'), w3)
                   else Inr (True, (remove_archive p w3)\<lparr>changed := True\<rparr>)))"

text \<open>
  \<open>create_symlink\<close>, as the list of states after each of its filesystem calls, in
  order. Where the removal raises, the method raises in the state of that call; otherwise
  its effect is the last of the states.
\<close>

definition create_symlink_steps :: "params \<Rightarrow> world \<Rightarrow> world list" where
  "create_symlink_steps p w =
     (case clear_current p w of
        Inl (f, w1) \<Rightarrow> [w1]
      | Inr w1 \<Rightarrow>
          let w2 = (os_symlink (release_path p (version p)) (current_link p) w1)
                     \<lparr>changed := True\<rparr>
          in case current w of NoEntry \<Rightarrow> [w2] | _ \<Rightarrow> [w1, w2])"

definition create_symlink :: "params \<Rightarrow> world \<Rightarrow> failure \<times> world + world" where
  "create_symlink p w =
     (case clear_current p w of
        Inl (f, w1) \<Rightarrow> Inl (f, w1)
      | Inr w1 \<Rightarrow> Inr (last (create_symlink_steps p w)))"

definition restart_service :: "params \<Rightarrow> env \<Rightarrow> world \<Rightarrow> bool \<times> world" where
  "restart_service p en w =
     (if \<not> truthy (service_name p) then (True, w)
      else
        case subprocess_run en [''systemctl'', ''restart'', str_of (service_name p)] w of
          (SpawnError e, w1) \<Rightarrow> (False, w1)
        | (Returned rc err, w1) \<Rightarrow>
            if rc \<noteq> 0 then (False, w1)
            else
              (case subprocess_run en [''systemctl'', ''is-active'', str_of (service_name p)]
                      (sleep 5 w1) of
                 (SpawnError e, w2) \<Rightarrow> (False, w2)
               | (Returned rc' err', w2) \<Rightarrow> (rc' = 0, w2)))"

text \<open>
  The polling loop of \<open>health_check\<close>: it ends because every round sleeps ten seconds.
\<close>

function health_loop :: "string \<Rightarrow> int \<Rightarrow> env \<Rightarrow> int \<Rightarrow> world \<Rightarrow> (bool \<times> string) \<times> world" where
  "health_loop url timeout en start_time w =
     (if clock w - start_time < timeout then
        (if fst (requests_get en url w) = Status 200
         then ((True, ''Health check passed''), snd (requests_get en url w))
         else health_loop url timeout en start_time (sleep 10 (snd (requests_get en url w))))
      else ((False, ''Health check failed''), w))"
  by pat_completeness auto
termination
  by (relation "measure (\<lambda>(url, timeout, en, start_time, w). nat (timeout - (clock w - start_time)))")
     (auto simp: sleep_def requests_get_def)

declare health_loop.simps [simp del]

definition health_check :: "params \<Rightarrow> env \<Rightarrow> world \<Rightarrow> (bool \<times> string) \<times> world" where
  "health_check p en w =
     (if \<not> truthy (health_check_url p) then ((True, ''No health check URL provided''), w)
      else health_loop (str_of (health_check_url p)) (health_check_timeout p) en (clock w) w)"

text \<open>
  \<open>rollback\<close>, likewise with the states after each filesystem call of its repoint; the
  restart follows the last of them, and its value is dropped.
\<close>

definition rollback_steps :: "params \<Rightarrow> string \<Rightarrow> world \<Rightarrow> world list" where
  "rollback_steps p previous w =
     (case clear_current p w of
        Inl (f, w1) \<Rightarrow> [w1]
      | Inr w1 \<Rightarrow>
          let w2 = os_symlink (release_path p previous) (current_link p) w1
          in case current w of NoEntry \<Rightarrow> [w2] | _ \<Rightarrow> [w1, w2])"

definition rollback :: "params \<Rightarrow> env \<Rightarrow> string option \<Rightarrow> world \<Rightarrow> failure \<times> world + bool \<times> world" where
  "rollback p en previous w =
     (if \<not> truthy previous then Inr (False, w)
      else if \<not> release_exists w (str_of previous) then Inr (False, w)
      else
        case clear_current p w of
          Inl (f, w1) \<Rightarrow> Inl (f, w1)
        | Inr w1 \<Rightarrow>
            let w2 = last (rollback_steps p (str_of previous) w);
                restarted = restart_service p en w2
            in Inr (True, snd restarted))"

fun is_dir :: "node \<Rightarrow> bool" where
  "is_dir (Directory t) = True"
| "is_dir (Regular t) = False"

definition list_versions :: "world \<Rightarrow> (string \<times> int) list" where
  "list_versions w = map (\<lambda>(n, d). (n, mtime d)) (filter (\<lambda>(n, d). is_dir d) (entries w))"

definition old_versions :: "params \<Rightarrow> world \<Rightarrow> string list" where
  "old_versions p w = map fst (slice_from (keep_versions p) (sort_newest_first (list_versions w)))"

text \<open>
  The deleting loop of \<open>cleanup_old_versions\<close>. A failing \<open>rmtree\<close> raises and leaves
  the directory in place; the text of its \<open>OSError\<close> is written \<open>rmtree: path\<close>.
\<close>

fun remove_versions :: "params \<Rightarrow> env \<Rightarrow> string list \<Rightarrow> world \<Rightarrow> failure \<times> world + world" where
  "remove_versions p en [] w = Inr w"
| "remove_versions p en (v # vs) w =
     (if rmtree_fails en (trace w) (release_path p v)
      then Inl (PyException (''rmtree: '' @ release_path p v), log (Rmtree (release_path p v)) w)
      else remove_versions p en vs
             (log (Rmtree (release_path p v))
                (w\<lparr>releases := map_option (filter (\<lambda>(n, d). n \<noteq> v)) (releases w)\<rparr>)))"

definition cleanup_old_versions :: "params \<Rightarrow> env \<Rightarrow> world \<Rightarrow> failure \<times> world + world" where
  "cleanup_old_versions p en w =
     (case releases w of
        None \<Rightarrow> Inr w
      | Some es \<Rightarrow> remove_versions p en (old_versions p w) w)"

text \<open>
  \<open>deploy\<close> in four parts: the body of its \<open>try\<close>, its \<open>except\<close> handler, the two
  together, and the code after them (cleanup and the result dictionary). The pair that
  the first three return is \<open>(rollback_occurred, health_check_status)\<close>. An exception
  of \<open>create_symlink\<close> or of the \<open>rollback\<close> in the \<open>try\<close> goes to the handler; one of
  the \<open>rollback\<close> in the handler leaves \<open>deploy\<close>.
\<close>

definition deploy_try :: "params \<Rightarrow> env \<Rightarrow> string option \<Rightarrow> world \<Rightarrow> failure \<times> world + (bool \<times> string) \<times> world" where
  "deploy_try p en current_version w =
     (case download_artifact p en w of
        Inl f \<Rightarrow> Inl f
      | Inr (ok, w1) \<Rightarrow>
          (case create_symlink p w1 of
             Inl f \<Rightarrow> Inl f
           | Inr w2 \<Rightarrow>
               (case restart_service p en w2 of
                  (False, w3) \<Rightarrow> Inl (PyException ''Failed to restart service'', w3)
                | (True, w3) \<Rightarrow>
                    (case health_check p en w3 of
                       ((health_ok, status), w4) \<Rightarrow>
                         if \<not> health_ok \<and> rollback_on_failure p then
                           (case rollback p en current_version w4 of
                              Inl f \<Rightarrow> Inl f
                            | Inr (True, w5) \<Rightarrow>
                                Inr ((True, status @ '' - Rolled back to previous version''), w5)
                            | Inr (False, w5) \<Rightarrow>
                                Inr ((False, status @ '' - Rollback failed''), w5))
                         else Inr ((False, status), w4)))))"

definition deploy_except :: "params \<Rightarrow> env \<Rightarrow> string option \<Rightarrow> string \<Rightarrow> world \<Rightarrow> failure \<times> world + (bool \<times> string) \<times> world" where
  "deploy_except p en current_version e w =
     (if rollback_on_failure p \<and> truthy current_version then
        (case rollback p en current_version w of
           Inl f \<Rightarrow> Inl f
         | Inr (True, w1) \<Rightarrow> Inr ((True, ''Deployment failed: '' @ e @ '' - Rolled back''), w1)
         | Inr (False, w1) \<Rightarrow>
             Inr ((False, ''Deployment failed: '' @ e @ '' - Rollback failed''), w1))
      else Inl (FailJson (''Deployment failed: '' @ e), w))"

definition deploy_attempt :: "params \<Rightarrow> env \<Rightarrow> string option \<Rightarrow> world \<Rightarrow> failure \<times> world + (bool \<times> string) \<times> world" where
  "deploy_attempt p en current_version w =
     (case deploy_try p en current_version w of
        Inl (PyException e, w') \<Rightarrow> deploy_except p en current_version e w'
      | Inl (FailJson m, w') \<Rightarrow> Inl (FailJson m, w')
      | Inr r \<Rightarrow> Inr r)"

definition deploy_finish :: "params \<Rightarrow> env \<Rightarrow> string option \<Rightarrow> bool \<Rightarrow> string \<Rightarrow> world \<Rightarrow> failure \<times> world + result \<times> world" where
  "deploy_finish p en current_version rolled_back status w =
     (case cleanup_old_versions p en w of
        Inl f \<Rightarrow> Inl f
      | Inr w1 \<Rightarrow>
          Inr (\<lparr>r_changed = changed w1,
                version_deployed = (if rolled_back then current_version else Some (version p)),
                rollback_occurred = rolled_back,
                deployment_time = clock w1 - deployment_start_time w1,
                health_check_status = status,
                previous_version =
                  (if rolled_back \<and> truthy current_version then current_version else None)\<rparr>,
               w1))"

definition already_deployed :: "params \<Rightarrow> world \<Rightarrow> result" where
  "already_deployed p w =
     \<lparr>r_changed = False,
      version_deployed = Some (version p),
      rollback_occurred = False,
      deployment_time = clock w - deployment_start_time w,
      health_check_status = ''Already deployed'',
      previous_version = None\<rparr>"

definition deploy :: "params \<Rightarrow> env \<Rightarrow> world \<Rightarrow> failure \<times> world + result \<times> world" where
  "deploy p en w0 =
     (let current_version = get_current_version p w0;
          w = makedirs_releases p w0
      in if release_exists w (version p) \<and> current_version = Some (version p)
         then Inr (already_deployed p w, w)
         else
           (case deploy_attempt p en current_version w of
              Inl f \<Rightarrow> Inl f
            | Inr ((rolled_back, status), w') \<Rightarrow>
                deploy_finish p en current_version rolled_back status w'))"

subsection \<open>main\<close>

text \<open>
  What the playbook passes: \<open>None\<close> is an option left out. The argument spec of
  \<open>main\<close> fills in the defaults.
\<close>

record args =
  arg_app_name :: string
  arg_app_path :: string
  arg_version :: string
  arg_artifact_url :: "string option"
  arg_health_check_url :: "string option"
  arg_health_check_timeout :: "int option"
  arg_rollback_on_failure :: "bool option"
  arg_keep_versions :: "int option"
  arg_service_name :: "string option"
  check_mode :: bool

definition module_params :: "args \<Rightarrow> params" where
  "module_params a =
     \<lparr>app_name = arg_app_name a,
      app_path = arg_app_path a,
      version = arg_version a,
      artifact_url = arg_artifact_url a,
      health_check_url =
        (case arg_health_check_url a of
           None \<Rightarrow> Some ''http://localhost:8080/health'' | Some u \<Rightarrow> Some u),
      health_check_timeout = (case arg_health_check_timeout a of None \<Rightarrow> 300 | Some t \<Rightarrow> t),
      rollback_on_failure = (case arg_rollback_on_failure a of None \<Rightarrow> True | Some b \<Rightarrow> b),
      keep_versions = (case arg_keep_versions a of None \<Rightarrow> 5 | Some k \<Rightarrow> k),
      service_name = arg_service_name a\<rparr>"

datatype exit_json = WouldDeploy | Deployed result

definition main :: "args \<Rightarrow> env \<Rightarrow> world \<Rightarrow> failure \<times> world + exit_json \<times> world" where
  "main a en w =
     (if check_mode a then Inr (WouldDeploy, w)
      else
        case deploy (module_params a) en (init_deployer w) of
          Inl f \<Rightarrow> Inl f
        | Inr (r, w') \<Rightarrow> Inr (Deployed r, w'))"

section \<open>Example inputs\<close>

text \<open>
  A deployment of \<open>v2\<close> of \<open>my-app\<close> over a running \<open>v1\<close>. In \<open>ex_env\<close> every
  command succeeds and the health URL answers 200; the other environments differ from it
  in one answer each.
\<close>

definition ex_params :: params where
  "ex_params =
     \<lparr>app_name = ''my-app'', app_path = ''/opt/my-app'', version = ''v2'',
      artifact_url = Some ''https://releases.company.com/my-app-v2.tar.gz'',
      health_check_url = Some ''http://localhost:3000/health'', health_check_timeout = 20,
      rollback_on_failure = True, keep_versions = 5, service_name = Some ''my-app''\<rparr>"

text \<open>The same with the health check switched off, and with one version kept.\<close>

definition ex_params_no_check :: params where
  "ex_params_no_check = ex_params\<lparr>health_check_url := Some []\<rparr>"

definition ex_params_keep_one :: params where
  "ex_params_keep_one = ex_params\<lparr>keep_versions := 1\<rparr>"

text \<open>The arguments of a playbook that gives no \<open>health_check_url\<close>.\<close>

definition ex_args :: args where
  "ex_args =
     \<lparr>arg_app_name = ''my-app'', arg_app_path = ''/opt/my-app'', arg_version = ''v2'',
      arg_artifact_url = Some ''https://releases.company.com/my-app-v2.tar.gz'',
      arg_health_check_url = None, arg_health_check_timeout = Some 20,
      arg_rollback_on_failure = None, arg_keep_versions = None,
      arg_service_name = Some ''my-app'', check_mode = False\<rparr>"

definition ex_env :: env where
  "ex_env =
     \<lparr>run = (\<lambda>h cmd. Returned 0 []), http_get = (\<lambda>h url. Status 200),
      elapsed = (\<lambda>h. 0), rmtree_fails = (\<lambda>h path. False)\<rparr>"

definition ex_env_unhealthy :: env where
  "ex_env_unhealthy = ex_env\<lparr>http_get := \<lambda>h url. Status 503\<rparr>"

definition ex_env_wget_fails :: env where
  "ex_env_wget_fails =
     ex_env\<lparr>run := \<lambda>h cmd. if hd cmd = ''wget'' then Returned 8 ''404 Not Found''
                            else Returned 0 []\<rparr>"


definition ex_env_restart_fails :: env where
  "ex_env_restart_fails =
     ex_env\<lparr>run := \<lambda>h cmd. if cmd = [''systemctl'', ''restart'', ''my-app'']
                            then Returned 1 ''Job for my-app.service failed''
                            else Returned 0 []\<rparr>"


definition ex_env_unhealthy_rmtree_fails :: env where
  "ex_env_unhealthy_rmtree_fails = ex_env_unhealthy\<lparr>rmtree_fails := \<lambda>h path. True\<rparr>"

definition ex_world :: world where
  "ex_world =
     \<lparr>releases = Some [(''v1'', Directory 50)], current = Link ''/opt/my-app/releases/v1'',
      clock = 100, trace = [], changed = False, deployment_start_time = 100\<rparr>"

text \<open>
  The states \<open>deploy ex_params\<close> goes through from \<open>ex_world\<close>: after the releases
  directory is made sure of, after staging, after the switch, after the restart, after a
  health check that passed at the first probe, after one that failed twice, and after the
  rollback to \<open>v1\<close> that follows the failed one.
\<close>

definition ex_started :: world where
  "ex_started = ex_world\<lparr>trace := [Makedirs ''/opt/my-app/releases'']\<rparr>"

definition ex_staged :: world where
  "ex_staged =
     ex_started
       \<lparr>releases := Some [(''v1'', Directory 50), (''v2'', Directory 100)],
        changed := True,
        trace :=
          [Remove ''/opt/my-app/releases/v2/app.tar.gz'',
           Run [''tar'', ''-xzf'', ''/opt/my-app/releases/v2/app.tar.gz'', ''-C'',
                ''/opt/my-app/releases/v2'', ''--strip-components=1''],
           Run [''wget'', ''-O'', ''/opt/my-app/releases/v2/app.tar.gz'',
                ''https://releases.company.com/my-app-v2.tar.gz''],
           Makedirs ''/opt/my-app/releases/v2'',
           Makedirs ''/opt/my-app/releases'']\<rparr>"

definition ex_switched :: world where
  "ex_switched =
     ex_staged
       \<lparr>current := Link ''/opt/my-app/releases/v2'',
        trace :=
          [Symlink ''/opt/my-app/releases/v2'' ''/opt/my-app/current'',
           Remove ''/opt/my-app/current''] @ trace ex_staged\<rparr>"

definition ex_restarted :: world where
  "ex_restarted =
     ex_switched
       \<lparr>clock := 105,
        trace :=
          [Run [''systemctl'', ''is-active'', ''my-app''], Sleep 5,
           Run [''systemctl'', ''restart'', ''my-app'']] @ trace ex_switched\<rparr>"

definition ex_deployed :: world where
  "ex_deployed =
     ex_restarted\<lparr>trace := HttpGet ''http://localhost:3000/health'' # trace ex_restarted\<rparr>"

definition ex_probed :: world where
  "ex_probed =
     ex_restarted
       \<lparr>clock := 125,
        trace :=
          [Sleep 10, HttpGet ''http://localhost:3000/health'',
           Sleep 10, HttpGet ''http://localhost:3000/health''] @ trace ex_restarted\<rparr>"

definition ex_rolled_back :: world where
  "ex_rolled_back =
     ex_probed
       \<lparr>current := Link ''/opt/my-app/releases/v1'', clock := 130,
        trace :=
          [Run [''systemctl'', ''is-active'', ''my-app''], Sleep 5,
           Run [''systemctl'', ''restart'', ''my-app''],
           Symlink ''/opt/my-app/releases/v1'' ''/opt/my-app/current'',
           Remove ''/opt/my-app/current''] @ trace ex_probed\<rparr>"

text \<open>
  What a staging of \<open>v2\<close> that fails in \<open>wget\<close> leaves of \<open>ex_started\<close>, and what one
  that fails in \<open>tar\<close> leaves.
\<close>

definition ex_leftover :: world where
  "ex_leftover =
     ex_started
       \<lparr>releases := Some [(''v1'', Directory 50), (''v2'', Directory 100)],
        trace :=
          [Run [''wget'', ''-O'', ''/opt/my-app/releases/v2/app.tar.gz'',
                ''https://releases.company.com/my-app-v2.tar.gz''],
           Makedirs ''/opt/my-app/releases/v2'',
           Makedirs ''/opt/my-app/releases'']\<rparr>"


text \<open>
  The same deployment where the directory of \<open>v1\<close> is gone and the link dangles: the
  start, and the states after staging, after the switch, after the restart and after the
  failed health check.
\<close>

definition ex_dangling :: world where
  "ex_dangling = ex_world\<lparr>releases := Some []\<rparr>"

definition ex_dangling_staged :: world where
  "ex_dangling_staged = ex_staged\<lparr>releases := Some [(''v2'', Directory 100)]\<rparr>"

definition ex_dangling_switched :: world where
  "ex_dangling_switched = ex_switched\<lparr>releases := Some [(''v2'', Directory 100)]\<rparr>"

definition ex_dangling_restarted :: world where
  "ex_dangling_restarted = ex_restarted\<lparr>releases := Some [(''v2'', Directory 100)]\<rparr>"

definition ex_dangling_probed :: world where
  "ex_dangling_probed = ex_probed\<lparr>releases := Some [(''v2'', Directory 100)]\<rparr>"

text \<open>
  Five releases staged one after the other, the third one live: the retention scenario
  of the specification, with \<open>keep_versions = 2\<close>.
\<close>

definition ex_five :: world where
  "ex_five =
     \<lparr>releases = Some [(''v1'', Directory 10), (''v2'', Directory 20), (''v3'', Directory 30),
                       (''v4'', Directory 40), (''v5'', Directory 50)],
      current = Link ''/opt/my-app/releases/v3'',
      clock = 100, trace = [], changed = False, deployment_start_time = 100\<rparr>"

section \<open>Properties\<close>

subsection \<open>What each step leaves alone\<close>

lemma release_exists_releases: "release_exists w v \<Longrightarrow> \<exists>es. releases w = Some es"
  by (cases "releases w") (simp_all add: release_exists_def entries_def)

lemma release_exists_iff: "release_exists w v \<longleftrightarrow> v \<in> fst ` set (entries w)"
  by (simp add: release_exists_def map_of_eq_None_iff)

lemma release_exists_cong: "releases w' = releases w \<Longrightarrow> release_exists w' v = release_exists w v"
  by (simp add: release_exists_def entries_def)

lemma entries_subprocess_run: "entries (snd (subprocess_run en cmd w)) = entries w"
  by (simp add: subprocess_run_def entries_def)

lemma names_remove_archive: "fst ` set (entries (remove_archive p w)) = fst ` set (entries w)"
  by (cases "releases w") (force simp: remove_archive_def entries_def log_def split: if_splits)+

lemma names_makedirs_version:
  "fst ` set (entries (makedirs_version p w)) = insert (version p) (fst ` set (entries w))"
  by (simp add: makedirs_version_def entries_def log_def)

lemma makedirs_releases_exists:
  "release_exists (makedirs_releases p w) v = release_exists w v"
  by (simp add: makedirs_releases_def release_exists_def entries_def log_def split: option.splits)

lemma create_symlink_effect:
  assumes "create_symlink p w = Inr w2"
  shows "releases w2 = releases w \<and> current w2 = Link (release_path p (version p))
         \<and> changed w2 = True"
  using assms
  by (cases "current w")
     (auto simp: create_symlink_def create_symlink_steps_def Let_def os_symlink_def
        clear_current_def log_def)

lemma restart_service_frame:
  assumes "restart_service p en w = (b, w')"
  shows "releases w' = releases w \<and> current w' = current w \<and> changed w' = changed w"
  using assms
  by (auto simp: restart_service_def subprocess_run_def sleep_def
           split: if_splits proc_result.splits)

lemma health_loop_frame:
  "releases (snd (health_loop url t en s w)) = releases w
   \<and> current (snd (health_loop url t en s w)) = current w
   \<and> changed (snd (health_loop url t en s w)) = changed w"
proof (induction url t en s w rule: health_loop.induct)
  case (1 url timeout en start_time w)
  show ?case
  proof (cases "clock w - start_time < timeout \<and> fst (requests_get en url w) \<noteq> Status 200")
    case True
    then have "health_loop url timeout en start_time w
        = health_loop url timeout en start_time (sleep 10 (snd (requests_get en url w)))"
      by (subst health_loop.simps) simp
    with True 1 show ?thesis
      by (simp add: sleep_def requests_get_def)
  next
    case False
    then show ?thesis
      by (subst (1 2 3) health_loop.simps) (auto simp: requests_get_def)
  qed
qed

lemma health_check_frame:
  assumes "health_check p en w = (r, w')"
  shows "releases w' = releases w \<and> current w' = current w \<and> changed w' = changed w"
proof (cases "truthy (health_check_url p)")
  case True
  with assms have "w' = snd (health_loop (str_of (health_check_url p)) (health_check_timeout p) en (clock w) w)"
    by (simp add: health_check_def)
  then show ?thesis using health_loop_frame by simp
next
  case False
  with assms show ?thesis by (simp add: health_check_def)
qed

text \<open>With a URL and a positive timeout the first probe is always sent.\<close>

lemma health_loop_trace: "\<exists>t. trace (snd (health_loop url timeout en s w)) = t @ trace w"
proof (induction url timeout en s w rule: health_loop.induct)
  case (1 url timeout en start_time w)
  show ?case
  proof (cases "clock w - start_time < timeout \<and> fst (requests_get en url w) \<noteq> Status 200")
    case True
    then have "health_loop url timeout en start_time w
        = health_loop url timeout en start_time (sleep 10 (snd (requests_get en url w)))"
      by (subst health_loop.simps) simp
    with True 1 show ?thesis
      by (auto simp: sleep_def requests_get_def)
  next
    case False
    then show ?thesis
      by (subst health_loop.simps) (auto simp: requests_get_def)
  qed
qed

lemma health_check_probes:
  assumes "truthy (health_check_url p)" and "0 < health_check_timeout p"
  shows "\<exists>t. trace (snd (health_check p en w)) = t @ HttpGet (str_of (health_check_url p)) # trace w"
proof -
  let ?url = "str_of (health_check_url p)"
  let ?w1 = "snd (requests_get en ?url w)"
  have t1: "trace ?w1 = HttpGet ?url # trace w"
    by (simp add: requests_get_def)
  show ?thesis
  proof (cases "fst (requests_get en ?url w) = Status 200")
    case True
    then have "snd (health_check p en w) = ?w1"
      using assms by (simp add: health_check_def) (subst health_loop.simps, simp)
    with t1 show ?thesis by simp
  next
    case False
    then have "snd (health_check p en w)
        = snd (health_loop ?url (health_check_timeout p) en (clock w) (sleep 10 ?w1))"
      using assms by (simp add: health_check_def) (subst health_loop.simps, simp)
    moreover obtain t where
      "trace (snd (health_loop ?url (health_check_timeout p) en (clock w) (sleep 10 ?w1)))
         = t @ trace (sleep 10 ?w1)"
      using health_loop_trace by blast
    ultimately have "trace (snd (health_check p en w)) = (t @ [Sleep 10]) @ HttpGet ?url # trace w"
      by (simp add: sleep_def t1)
    then show ?thesis by blast
  qed
qed

subsection \<open>Paths\<close>

lemma basename_no_slash: "CHR ''/'' \<notin> set (basename t)"
  by (auto simp: basename_def dest: set_takeWhileD)

lemma basename_plain:
  assumes "CHR ''/'' \<notin> set b"
  shows "basename b = b"
proof -
  have "takeWhile (\<lambda>c. c \<noteq> CHR ''/'') (rev b) = rev b"
    by (rule takeWhile_eq_all_conv [THEN iffD2]) (use assms in auto)
  then show ?thesis unfolding basename_def by (simp only: rev_rev_ident)
qed

lemma basename_after_slash:
  assumes "CHR ''/'' \<notin> set b"
  shows "basename (a @ CHR ''/'' # b) = b"
proof -
  have "takeWhile (\<lambda>c. c \<noteq> CHR ''/'') (rev b @ CHR ''/'' # rev a)
          = rev b @ takeWhile (\<lambda>c. c \<noteq> CHR ''/'') (CHR ''/'' # rev a)"
    by (rule takeWhile_append2) (use assms in auto)
  then have "takeWhile (\<lambda>c. c \<noteq> CHR ''/'') (rev (a @ CHR ''/'' # b)) = rev b"
    by simp
  then show ?thesis unfolding basename_def by (simp only: rev_rev_ident)
qed

lemma basename_join:
  assumes "b \<noteq> []" and "CHR ''/'' \<notin> set b"
  shows "basename (join a b) = b"
proof -
  from assms have hd: "hd b \<noteq> CHR ''/''"
    by (cases b) auto
  show ?thesis
  proof (cases "a = []")
    case True
    with assms hd show ?thesis by (simp add: join_def basename_plain)
  next
    case False
    show ?thesis
    proof (cases "last a = CHR ''/''")
      case True
      with False have "a = butlast a @ [CHR ''/'']"
        by (metis append_butlast_last_id)
      then have e: "a @ b = butlast a @ CHR ''/'' # b"
        by (metis append_Cons append_Nil append_assoc)
      have "basename (a @ b) = b"
        by (subst e) (rule basename_after_slash [OF assms(2)])
      with assms hd True show ?thesis
        by (simp add: join_def)
    next
      case notslash: False
      with assms hd False show ?thesis
        by (simp add: join_def basename_after_slash)
    qed
  qed
qed

text \<open>A link that \<open>rollback\<close> makes reads back as the version it was made for.\<close>

lemma current_version_of_release_link:
  assumes "truthy (get_current_version p w0)"
      and "current w' = Link (release_path p (str_of (get_current_version p w0)))"
  shows "get_current_version p w' = get_current_version p w0"
proof (cases "current w0")
  case (Link t)
  then have cv: "get_current_version p w0 = Some (basename t)"
    by (simp add: get_current_version_def)
  with assms(1) have "basename t \<noteq> []" by simp
  then have "basename (join (releases_dir p) (basename t)) = basename t"
    using basename_no_slash basename_join by blast
  then show ?thesis
    using assms(2) cv by (simp add: get_current_version_def release_path_def)
qed (use assms(1) in \<open>simp_all add: get_current_version_def\<close>)

subsection \<open>Staging\<close>

lemma download_artifact_success:
  assumes "download_artifact p en w = Inr (ok, w1)"
  shows "current w1 = current w \<and> (release_exists w v \<longrightarrow> release_exists w1 v)"
proof (cases "\<not> truthy (artifact_url p) \<or> release_exists w (version p)")
  case True
  with assms have "w1 = w" by (auto simp: download_artifact_def split: if_splits)
  then show ?thesis by simp
next
  case False
  with assms have w1:
    "w1 = (remove_archive p (snd (subprocess_run en (tar_cmd p)
              (snd (subprocess_run en (wget_cmd p) (makedirs_version p w))))))\<lparr>changed := True\<rparr>"
    by (auto simp: download_artifact_def Let_def split: prod.splits proc_result.splits if_splits)
  have c: "current w1 = current w"
    by (simp add: w1 remove_archive_def log_def subprocess_run_def makedirs_version_def)
  have "entries w1 = entries (remove_archive p (snd (subprocess_run en (tar_cmd p)
              (snd (subprocess_run en (wget_cmd p) (makedirs_version p w))))))"
    by (simp add: w1 entries_def)
  then have "fst ` set (entries w1) = insert (version p) (fst ` set (entries w))"
    by (simp add: names_remove_archive entries_subprocess_run names_makedirs_version)
  with c show ?thesis by (simp add: release_exists_iff)
qed



subsection \<open>Cleanup\<close>

lemma map_of_filter_names:
  "map_of (filter (\<lambda>(n, d). P n) es) v = (if P v then map_of es v else None)"
  by (induction es) auto

lemma remove_versions_done:
  "remove_versions p en vs w = Inr w' \<Longrightarrow>
     releases w' = map_option (filter (\<lambda>(n, d). n \<notin> set vs)) (releases w)
     \<and> current w' = current w \<and> changed w' = changed w \<and> clock w' = clock w
     \<and> deployment_start_time w' = deployment_start_time w
     \<and> trace w' = rev (map (\<lambda>v. Rmtree (release_path p v)) vs) @ trace w"
proof (induction vs arbitrary: w)
  case Nil
  then show ?case by (cases "releases w") simp_all
next
  case (Cons v vs)
  let ?w1 = "log (Rmtree (release_path p v))
                (w\<lparr>releases := map_option (filter (\<lambda>(n, d). n \<noteq> v)) (releases w)\<rparr>)"
  from Cons.prems have "remove_versions p en vs ?w1 = Inr w'"
    by (simp split: if_splits)
  from Cons.IH [OF this] show ?case
    by (cases "releases w") (auto simp: log_def case_prod_unfold intro: filter_cong)
qed

lemma remove_versions_raises:
  "remove_versions p en vs w = Inl (f, w') \<Longrightarrow>
     \<exists>v t. v \<in> set vs \<and> f = PyException (''rmtree: '' @ release_path p v)
        \<and> trace w' = Rmtree (release_path p v) # t \<and> rmtree_fails en t (release_path p v)"
proof (induction vs arbitrary: w)
  case Nil
  then show ?case by simp
next
  case (Cons v vs)
  show ?case
  proof (cases "rmtree_fails en (trace w) (release_path p v)")
    case True
    with Cons.prems show ?thesis by (auto simp: log_def)
  next
    case False
    with Cons.prems Cons.IH show ?thesis by (simp split: if_splits) blast
  qed
qed

lemma remove_versions_raises_current:
  "remove_versions p en vs w = Inl (f, w') \<Longrightarrow> current w' = current w"
proof (induction vs arbitrary: w)
  case Nil
  then show ?case by simp
next
  case (Cons v vs)
  show ?case
  proof (cases "rmtree_fails en (trace w) (release_path p v)")
    case True
    with Cons.prems show ?thesis by (auto simp: log_def)
  next
    case False
    with Cons.prems have "remove_versions p en vs
        (log (Rmtree (release_path p v))
           (w\<lparr>releases := map_option (filter (\<lambda>(n, d). n \<noteq> v)) (releases w)\<rparr>)) = Inl (f, w')"
      by simp
    from Cons.IH [OF this] show ?thesis by (simp add: log_def)
  qed
qed

lemma remove_versions_total:
  "\<forall>h path. \<not> rmtree_fails en h path \<Longrightarrow> \<exists>w'. remove_versions p en vs w = Inr w'"
  by (induction vs arbitrary: w) simp_all

lemma cleanup_total:
  "\<forall>h path. \<not> rmtree_fails en h path \<Longrightarrow> \<exists>w'. cleanup_old_versions p en w = Inr w'"
  by (cases "releases w") (simp_all add: cleanup_old_versions_def remove_versions_total)

lemma cleanup_done:
  assumes "cleanup_old_versions p en w = Inr w'"
  shows "releases w' = map_option (filter (\<lambda>(n, d). n \<notin> set (old_versions p w))) (releases w)
     \<and> current w' = current w \<and> changed w' = changed w \<and> clock w' = clock w
     \<and> deployment_start_time w' = deployment_start_time w"
proof (cases "releases w")
  case None
  with assms show ?thesis by (simp add: cleanup_old_versions_def)
next
  case (Some es)
  with assms have "remove_versions p en (old_versions p w) w = Inr w'"
    by (simp add: cleanup_old_versions_def)
  from remove_versions_done [OF this] show ?thesis by simp
qed

lemma cleanup_raises:
  assumes "cleanup_old_versions p en w = Inl (f, w')"
  shows "\<exists>v t. v \<in> set (old_versions p w) \<and> f = PyException (''rmtree: '' @ release_path p v)
        \<and> trace w' = Rmtree (release_path p v) # t \<and> rmtree_fails en t (release_path p v)"
proof (cases "releases w")
  case None
  with assms show ?thesis by (simp add: cleanup_old_versions_def)
next
  case (Some es)
  with assms have "remove_versions p en (old_versions p w) w = Inl (f, w')"
    by (simp add: cleanup_old_versions_def)
  from remove_versions_raises [OF this] show ?thesis .
qed

lemma cleanup_raises_current:
  assumes "cleanup_old_versions p en w = Inl (f, w')"
  shows "current w' = current w"
proof (cases "releases w")
  case None
  with assms show ?thesis by (simp add: cleanup_old_versions_def)
next
  case (Some es)
  with assms have "remove_versions p en (old_versions p w) w = Inl (f, w')"
    by (simp add: cleanup_old_versions_def)
  from remove_versions_raises_current [OF this] show ?thesis .
qed

subsection \<open>Rollback and the parts of deploy\<close>

lemma rollback_steps_last:
  assumes "current w \<noteq> File"
  shows "current (last (rollback_steps p v w)) = Link (release_path p v)
       \<and> releases (last (rollback_steps p v w)) = releases w
       \<and> changed (last (rollback_steps p v w)) = changed w"
  using assms
  by (cases "current w")
     (simp_all add: rollback_steps_def Let_def os_symlink_def clear_current_def log_def)

lemma rollback_done:
  assumes "truthy previous" and "release_exists w (str_of previous)" and "current w \<noteq> File"
  shows "\<exists>w'. rollback p en previous w = Inr (True, w')
     \<and> current w' = Link (release_path p (str_of previous))
     \<and> releases w' = releases w \<and> changed w' = changed w"
proof -
  let ?w2 = "last (rollback_steps p (str_of previous) w)"
  have r: "rollback p en previous w = Inr (True, snd (restart_service p en ?w2))"
    using assms by (cases "current w") (simp_all add: rollback_def Let_def clear_current_def)
  obtain b w3 where rs: "restart_service p en ?w2 = (b, w3)" by force
  from restart_service_frame [OF rs] rollback_steps_last [OF assms(3), of p "str_of previous"] r rs
  show ?thesis by simp
qed

lemma rollback_refused:
  assumes "rollback p en previous w = Inr (False, w')"
  shows "w' = w \<and> (\<not> truthy previous \<or> \<not> release_exists w (str_of previous))"
  using assms by (auto simp: rollback_def Let_def split: if_splits sum.splits prod.splits)

lemma deploy_unfold:
  assumes "\<not> (release_exists w0 (version p) \<and> get_current_version p w0 = Some (version p))"
  shows "deploy p en w0 =
           (case deploy_attempt p en (get_current_version p w0) (makedirs_releases p w0) of
              Inl f \<Rightarrow> Inl f
            | Inr ((rolled_back, status), w') \<Rightarrow>
                deploy_finish p en (get_current_version p w0) rolled_back status w')"
  using assms by (auto simp: deploy_def Let_def makedirs_releases_exists)

lemma deploy_finish_total:
  assumes "\<forall>h path. \<not> rmtree_fails en h path"
  shows "\<exists>w'. deploy_finish p en cv rb st w =
            Inr (\<lparr>r_changed = changed w,
                  version_deployed = (if rb then cv else Some (version p)),
                  rollback_occurred = rb,
                  deployment_time = clock w - deployment_start_time w,
                  health_check_status = st,
                  previous_version = (if rb \<and> truthy cv then cv else None)\<rparr>, w')
          \<and> current w' = current w"
proof -
  from cleanup_total [OF assms] obtain w' where c: "cleanup_old_versions p en w = Inr w'"
    by blast
  from cleanup_done [OF c] c show ?thesis
    by (simp add: deploy_finish_def)
qed


subsection \<open>Retention\<close>

text \<open>
  C1, as the code has it. \<open>cleanup_old_versions\<close> protects nothing. When it completes,
  an entry of \<open>releases/\<close> is there if and only if it was there before and is not one of
  \<open>old_versions\<close>: the directories past the first \<open>keep_versions\<close> in newest-first order
  of modification time. The \<open>current\<close> link is neither read nor changed, so the release
  it names is deleted whenever it ranks past \<open>keep_versions\<close>, and the link is left
  dangling.
\<close>

theorem cleanup_keeps_newest_only:
  assumes "cleanup_old_versions p en w = Inr w'"
  shows "current w' = current w
         \<and> (\<forall>v. release_exists w' v \<longleftrightarrow> release_exists w v \<and> v \<notin> set (old_versions p w))
         \<and> (0 \<le> keep_versions p \<longrightarrow>
              old_versions p w =
                map fst (drop (nat (keep_versions p)) (sort_newest_first (list_versions w))))"
proof -
  from cleanup_done [OF assms]
  have r: "releases w' = map_option (filter (\<lambda>(n, d). n \<notin> set (old_versions p w))) (releases w)"
    and c: "current w' = current w" by simp_all
  have "release_exists w' v \<longleftrightarrow> release_exists w v \<and> v \<notin> set (old_versions p w)" for v
    by (cases "releases w") (simp_all add: release_exists_def entries_def r map_of_filter_names)
  then show ?thesis
    using c by (simp add: old_versions_def slice_from_def)
qed

theorem cleanup_keeps_newest_only_witness:
  "cleanup_old_versions (ex_params\<lparr>keep_versions := 2\<rparr>) ex_env ex_five
     = Inr (ex_five\<lparr>releases := Some [(''v4'', Directory 40), (''v5'', Directory 50)],
                    trace := [Rmtree ''/opt/my-app/releases/v1'',
                              Rmtree ''/opt/my-app/releases/v2'',
                              Rmtree ''/opt/my-app/releases/v3'']\<rparr>)
   \<and> old_versions (ex_params\<lparr>keep_versions := 2\<rparr>) ex_five = [''v3'', ''v2'', ''v1'']
   \<and> current (ex_five\<lparr>releases := Some [(''v4'', Directory 40), (''v5'', Directory 50)],
                    trace := [Rmtree ''/opt/my-app/releases/v1'',
                              Rmtree ''/opt/my-app/releases/v2'',
                              Rmtree ''/opt/my-app/releases/v3'']\<rparr>)
       = Link ''/opt/my-app/releases/v3''"
proof -
  have h: "cleanup_old_versions (ex_params\<lparr>keep_versions := 2\<rparr>) ex_env ex_five
     = Inr (ex_five\<lparr>releases := Some [(''v4'', Directory 40), (''v5'', Directory 50)],
                    trace := [Rmtree ''/opt/my-app/releases/v1'',
                              Rmtree ''/opt/my-app/releases/v2'',
                              Rmtree ''/opt/my-app/releases/v3'']\<rparr>)"
    by code_simp
  have k: "(0::int) \<le> keep_versions (ex_params\<lparr>keep_versions := 2\<rparr>)"
    by (simp add: ex_params_def)
  have o: "map fst (drop (nat (keep_versions (ex_params\<lparr>keep_versions := 2\<rparr>)))
             (sort_newest_first (list_versions ex_five))) = [''v3'', ''v2'', ''v1'']"
    by code_simp
  have c: "current ex_five = Link ''/opt/my-app/releases/v3''"
    by (simp add: ex_five_def)
  show ?thesis
    using cleanup_keeps_newest_only [OF h] h k o c by simp
qed

text \<open>
  C1 as stated fails. In the retention scenario of the specification (five releases,
  the third one live, \<open>keep_versions = 2\<close>) the live \<open>v3\<close> is deleted with \<open>v1\<close> and
  \<open>v2\<close>. And in a whole run: \<open>v2\<close> is deployed over \<open>v1\<close> with \<open>keep_versions = 1\<close>,
  its health check fails, the link is put back on \<open>v1\<close>, and the cleanup of that same
  run then deletes \<open>v1\<close>, the older of the two directories.
\<close>

theorem cleanup_deletes_current_counterexample:
  "cleanup_old_versions (ex_params\<lparr>keep_versions := 2\<rparr>) ex_env ex_five
     = Inr (ex_five\<lparr>releases := Some [(''v4'', Directory 40), (''v5'', Directory 50)],
                    trace := [Rmtree ''/opt/my-app/releases/v1'',
                              Rmtree ''/opt/my-app/releases/v2'',
                              Rmtree ''/opt/my-app/releases/v3'']\<rparr>)
   \<and> current ex_five = Link ''/opt/my-app/releases/v3''
   \<and> deploy ex_params_keep_one ex_env_unhealthy ex_world
     = Inr (\<lparr>r_changed = True, version_deployed = Some ''v1'', rollback_occurred = True,
             deployment_time = 30,
             health_check_status = ''Health check failed - Rolled back to previous version'',
             previous_version = Some ''v1''\<rparr>,
            ex_rolled_back\<lparr>releases := Some [(''v2'', Directory 100)],
                           trace := Rmtree ''/opt/my-app/releases/v1'' # trace ex_rolled_back\<rparr>)
   \<and> current (ex_rolled_back\<lparr>releases := Some [(''v2'', Directory 100)],
                           trace := Rmtree ''/opt/my-app/releases/v1'' # trace ex_rolled_back\<rparr>)
       = Link ''/opt/my-app/releases/v1''
   \<and> \<not> release_exists (ex_rolled_back\<lparr>releases := Some [(''v2'', Directory 100)],
                           trace := Rmtree ''/opt/my-app/releases/v1'' # trace ex_rolled_back\<rparr>)
           ''v1''"
  by code_simp

subsection \<open>A rollback that fails\<close>

text \<open>
  C2, as the code has it. Where a rollback is attempted and returns \<open>False\<close> (after a
  failed health check, or in the handler after a failed restart), \<open>deploy\<close> does not
  fail on that account. The refused rollback has touched nothing, \<open>- Rollback failed\<close>
  is appended to the health status, the cleanup runs, and the result record comes back
  with \<open>rollback_occurred = False\<close> and \<open>version_deployed\<close> the target version, the
  link still on the target. \<open>fail_json\<close> is never called; the only way the run ends
  without a record is a deletion error of the cleanup.
\<close>

theorem failed_rollback_is_reported_not_raised:
  assumes fresh: "\<not> (release_exists w0 (version p) \<and> get_current_version p w0 = Some (version p))"
      and staged: "download_artifact p en (makedirs_releases p w0) = Inr (ok, w1)"
      and switched: "create_symlink p w1 = Inr w2"
      and restart: "restart_service p en w2 = (restarted, w3)"
      and enabled: "rollback_on_failure p"
      and attempted:
        "(restarted \<and> health_check p en w3 = ((False, status), w4)
            \<and> narrative = status @ '' - Rollback failed'')
         \<or> (\<not> restarted \<and> truthy (get_current_version p w0) \<and> w4 = w3
            \<and> narrative = ''Deployment failed: Failed to restart service - Rollback failed'')"
      and failed: "rollback p en (get_current_version p w0) w4 = Inr (False, w5)"
  shows "w5 = w4
         \<and> current w4 = Link (release_path p (version p))
         \<and> deploy p en w0 =
             (case cleanup_old_versions p en w4 of
                Inl f \<Rightarrow> Inl f
              | Inr w6 \<Rightarrow>
                  Inr (\<lparr>r_changed = changed w6, version_deployed = Some (version p),
                         rollback_occurred = False,
                         deployment_time = clock w6 - deployment_start_time w6,
                         health_check_status = narrative, previous_version = None\<rparr>, w6))
         \<and> (\<forall>m w'. deploy p en w0 \<noteq> Inl (FailJson m, w'))"
proof -
  let ?cv = "get_current_version p w0"
  let ?w = "makedirs_releases p w0"
  have same: "w5 = w4" using rollback_refused [OF failed] by simp
  have c3: "current w3 = Link (release_path p (version p))"
    using restart_service_frame [OF restart] create_symlink_effect [OF switched] by simp
  have c4: "current w4 = Link (release_path p (version p))"
    using attempted
  proof
    assume "restarted \<and> health_check p en w3 = ((False, status), w4)
            \<and> narrative = status @ '' - Rollback failed''"
    then have "health_check p en w3 = ((False, status), w4)" by simp
    from health_check_frame [OF this] c3 show ?thesis by simp
  next
    assume "\<not> restarted \<and> truthy ?cv \<and> w4 = w3
            \<and> narrative = ''Deployment failed: Failed to restart service - Rollback failed''"
    with c3 show ?thesis by simp
  qed
  have "deploy_attempt p en ?cv ?w = Inr ((False, narrative), w4)"
    using attempted
  proof
    assume a: "restarted \<and> health_check p en w3 = ((False, status), w4)
            \<and> narrative = status @ '' - Rollback failed''"
    then have "deploy_try p en ?cv ?w = Inr ((False, narrative), w4)"
      using staged switched restart enabled failed same by (simp add: deploy_try_def)
    then show ?thesis by (simp add: deploy_attempt_def)
  next
    assume a: "\<not> restarted \<and> truthy ?cv \<and> w4 = w3
            \<and> narrative = ''Deployment failed: Failed to restart service - Rollback failed''"
    then have "deploy_try p en ?cv ?w = Inl (PyException ''Failed to restart service'', w3)"
      using staged switched restart by (simp add: deploy_try_def)
    then show ?thesis
      using a enabled failed same by (simp add: deploy_attempt_def deploy_except_def)
  qed
  then have d: "deploy p en w0 = deploy_finish p en ?cv False narrative w4"
    by (simp add: deploy_unfold [OF fresh])
  have nofail: "deploy p en w0 \<noteq> Inl (FailJson m, w')" for m w'
  proof (cases "cleanup_old_versions p en w4")
    case (Inl x)
    obtain f w'' where x: "x = (f, w'')" by (cases x)
    from cleanup_raises [of p en w4 f w''] Inl x d show ?thesis
      by (auto simp: deploy_finish_def)
  next
    case (Inr w6)
    with d show ?thesis by (simp add: deploy_finish_def)
  qed
  show ?thesis
    using same c4 d nofail by (simp add: deploy_finish_def)
qed

theorem failed_rollback_is_reported_not_raised_witness:
  "\<not> (release_exists ex_dangling (version ex_params)
        \<and> get_current_version ex_params ex_dangling = Some (version ex_params))
   \<and> download_artifact ex_params ex_env_unhealthy (makedirs_releases ex_params ex_dangling)
       = Inr (True, ex_dangling_staged)
   \<and> create_symlink ex_params ex_dangling_staged = Inr ex_dangling_switched
   \<and> restart_service ex_params ex_env_unhealthy ex_dangling_switched
       = (True, ex_dangling_restarted)
   \<and> rollback_on_failure ex_params
   \<and> health_check ex_params ex_env_unhealthy ex_dangling_restarted
       = ((False, ''Health check failed''), ex_dangling_probed)
   \<and> rollback ex_params ex_env_unhealthy (get_current_version ex_params ex_dangling)
         ex_dangling_probed = Inr (False, ex_dangling_probed)
   \<and> cleanup_old_versions ex_params ex_env_unhealthy ex_dangling_probed = Inr ex_dangling_probed
   \<and> deploy ex_params ex_env_unhealthy ex_dangling
       = Inr (\<lparr>r_changed = True, version_deployed = Some ''v2'', rollback_occurred = False,
               deployment_time = 25,
               health_check_status = ''Health check failed - Rollback failed'',
               previous_version = None\<rparr>, ex_dangling_probed)"
proof -
  have h1: "\<not> (release_exists ex_dangling (version ex_params)
        \<and> get_current_version ex_params ex_dangling = Some (version ex_params))"
    by code_simp
  have h2: "download_artifact ex_params ex_env_unhealthy (makedirs_releases ex_params ex_dangling)
       = Inr (True, ex_dangling_staged)"
    by code_simp
  have h2': "create_symlink ex_params ex_dangling_staged = Inr ex_dangling_switched"
    by code_simp
  have h3: "restart_service ex_params ex_env_unhealthy ex_dangling_switched
       = (True, ex_dangling_restarted)"
    by code_simp
  have h4: "rollback_on_failure ex_params"
    by (simp add: ex_params_def)
  have h5: "health_check ex_params ex_env_unhealthy ex_dangling_restarted
       = ((False, ''Health check failed''), ex_dangling_probed)"
    by code_simp
  have h6: "rollback ex_params ex_env_unhealthy (get_current_version ex_params ex_dangling)
         ex_dangling_probed = Inr (False, ex_dangling_probed)"
    by code_simp
  have c: "cleanup_old_versions ex_params ex_env_unhealthy ex_dangling_probed = Inr ex_dangling_probed"
    by code_simp
  have v: "changed ex_dangling_probed = True
       \<and> clock ex_dangling_probed - deployment_start_time ex_dangling_probed = 25
       \<and> version ex_params = ''v2''"
    by code_simp
  from h3 h5 have a:
    "(True \<and> health_check ex_params ex_env_unhealthy ex_dangling_restarted
          = ((False, ''Health check failed''), ex_dangling_probed)
        \<and> ''Health check failed - Rollback failed'' = ''Health check failed'' @ '' - Rollback failed'')
     \<or> (\<not> True \<and> truthy (get_current_version ex_params ex_dangling)
        \<and> ex_dangling_probed = ex_dangling_restarted
        \<and> ''Health check failed - Rollback failed''
            = ''Deployment failed: Failed to restart service - Rollback failed'')"
    by simp
  show ?thesis
    using failed_rollback_is_reported_not_raised [OF h1 h2 h2' h3 h4 a h6] h1 h2 h2' h3 h4 h5 h6 c v
    by simp
qed

text \<open>
  C2 as stated fails: \<open>v2\<close> is deployed where the directory of the live \<open>v1\<close> is gone.
  The health check fails, \<open>rollback\<close> finds no directory to go back to and returns
  \<open>False\<close>, and the run ends with a result record, the link on the unhealthy \<open>v2\<close>.
\<close>

theorem failed_rollback_counterexample:
  "rollback ex_params ex_env_unhealthy (Some ''v1'') ex_dangling_probed
     = Inr (False, ex_dangling_probed)
   \<and> deploy ex_params ex_env_unhealthy ex_dangling
       = Inr (\<lparr>r_changed = True, version_deployed = Some ''v2'', rollback_occurred = False,
               deployment_time = 25,
               health_check_status = ''Health check failed - Rollback failed'',
               previous_version = None\<rparr>, ex_dangling_probed)
   \<and> current ex_dangling_probed = Link ''/opt/my-app/releases/v2''"
  by code_simp

subsection \<open>The pointer switch\<close>

text \<open>
  C3, as the code has it. The switch in \<open>create_symlink\<close> and in \<open>rollback\<close> is
  remove, then create. Where a link or a directory is at \<open>current\<close>, the first
  filesystem call removes it (\<open>os.remove\<close> for a link, \<open>shutil.rmtree\<close> for a
  directory) and leaves a state with no \<open>current\<close> entry; the second call makes the new
  link. Where nothing is there, the link is made at once. Where a regular file is there,
  \<open>shutil.rmtree\<close> raises, the file stays and no link is made. When \<open>create_symlink\<close>
  returns, the link names \<open>releases/version\<close>, whether or not that directory exists.
  \<open>rollback\<close> repoints if and only if a previous version is given and its directory
  exists: otherwise it returns \<open>False\<close> and leaves the state as it is.
\<close>

theorem switch_removes_then_creates:
  "(current w = Link t \<longrightarrow>
      create_symlink_steps p w =
        [w\<lparr>current := NoEntry, trace := Remove (current_link p) # trace w\<rparr>,
         w\<lparr>current := Link (release_path p (version p)),
           trace := Symlink (release_path p (version p)) (current_link p)
                    # Remove (current_link p) # trace w,
           changed := True\<rparr>]
      \<and> create_symlink p w = Inr (last (create_symlink_steps p w)))
   \<and> (current w = Tree \<longrightarrow>
      create_symlink_steps p w =
        [w\<lparr>current := NoEntry, trace := Rmtree (current_link p) # trace w\<rparr>,
         w\<lparr>current := Link (release_path p (version p)),
           trace := Symlink (release_path p (version p)) (current_link p)
                    # Rmtree (current_link p) # trace w,
           changed := True\<rparr>]
      \<and> create_symlink p w = Inr (last (create_symlink_steps p w)))
   \<and> (current w = NoEntry \<longrightarrow>
      create_symlink_steps p w =
        [w\<lparr>current := Link (release_path p (version p)),
           trace := Symlink (release_path p (version p)) (current_link p) # trace w,
           changed := True\<rparr>]
      \<and> create_symlink p w = Inr (last (create_symlink_steps p w)))
   \<and> (current w = File \<longrightarrow>
      create_symlink_steps p w = [w\<lparr>trace := Rmtree (current_link p) # trace w\<rparr>]
      \<and> create_symlink p w =
          Inl (PyException (''[Errno 20] Not a directory: '' @ current_link p),
               w\<lparr>trace := Rmtree (current_link p) # trace w\<rparr>))
   \<and> (\<not> (truthy previous \<and> release_exists w (str_of previous)) \<longrightarrow>
      rollback p en previous w = Inr (False, w))
   \<and> (truthy previous \<and> release_exists w (str_of previous) \<longrightarrow>
      rollback_steps p (str_of previous) w =
        (case current w of
           Link t \<Rightarrow>
             [w\<lparr>current := NoEntry, trace := Remove (current_link p) # trace w\<rparr>,
              w\<lparr>current := Link (release_path p (str_of previous)),
                trace := Symlink (release_path p (str_of previous)) (current_link p)
                         # Remove (current_link p) # trace w\<rparr>]
         | Tree \<Rightarrow>
             [w\<lparr>current := NoEntry, trace := Rmtree (current_link p) # trace w\<rparr>,
              w\<lparr>current := Link (release_path p (str_of previous)),
                trace := Symlink (release_path p (str_of previous)) (current_link p)
                         # Rmtree (current_link p) # trace w\<rparr>]
         | NoEntry \<Rightarrow>
             [w\<lparr>current := Link (release_path p (str_of previous)),
                trace := Symlink (release_path p (str_of previous)) (current_link p) # trace w\<rparr>]
         | File \<Rightarrow> [w\<lparr>trace := Rmtree (current_link p) # trace w\<rparr>])
      \<and> rollback p en previous w =
          (case current w of
             File \<Rightarrow>
               Inl (PyException (''[Errno 20] Not a directory: '' @ current_link p),
                    w\<lparr>trace := Rmtree (current_link p) # trace w\<rparr>)
           | _ \<Rightarrow>
               Inr (True,
                    snd (restart_service p en (last (rollback_steps p (str_of previous) w))))))"
  by (cases "current w")
     (auto simp: create_symlink_def create_symlink_steps_def rollback_steps_def rollback_def
        clear_current_def os_symlink_def log_def Let_def)

theorem switch_removes_then_creates_witness:
  "current ex_staged = Link ''/opt/my-app/releases/v1''
   \<and> create_symlink_steps ex_params ex_staged
       = [ex_staged\<lparr>current := NoEntry, trace := Remove ''/opt/my-app/current'' # trace ex_staged\<rparr>,
          ex_switched]
   \<and> create_symlink ex_params ex_staged = Inr ex_switched
   \<and> current (ex_staged\<lparr>current := Tree\<rparr>) = Tree
   \<and> create_symlink ex_params (ex_staged\<lparr>current := Tree\<rparr>)
       = Inr (ex_switched\<lparr>trace := [Symlink ''/opt/my-app/releases/v2'' ''/opt/my-app/current'',
                                    Rmtree ''/opt/my-app/current''] @ trace ex_staged\<rparr>)
   \<and> current (ex_staged\<lparr>current := NoEntry\<rparr>) = NoEntry
   \<and> create_symlink ex_params (ex_staged\<lparr>current := NoEntry\<rparr>)
       = Inr (ex_switched\<lparr>trace := Symlink ''/opt/my-app/releases/v2'' ''/opt/my-app/current''
                                   # trace ex_staged\<rparr>)
   \<and> current (ex_staged\<lparr>current := File\<rparr>) = File
   \<and> create_symlink ex_params (ex_staged\<lparr>current := File\<rparr>)
       = Inl (PyException ''[Errno 20] Not a directory: /opt/my-app/current'',
              ex_staged\<lparr>current := File, trace := Rmtree ''/opt/my-app/current'' # trace ex_staged\<rparr>)
   \<and> \<not> (truthy (Some ''v1'') \<and> release_exists ex_dangling_probed (str_of (Some ''v1'')))
   \<and> rollback ex_params ex_env (Some ''v1'') ex_dangling_probed = Inr (False, ex_dangling_probed)
   \<and> (truthy (Some ''v1'') \<and> release_exists ex_probed (str_of (Some ''v1'')))
   \<and> rollback ex_params ex_env_unhealthy (Some ''v1'') ex_probed = Inr (True, ex_rolled_back)"
proof -
  let ?tree = "ex_staged\<lparr>current := Tree\<rparr>"
  let ?none = "ex_staged\<lparr>current := NoEntry\<rparr>"
  let ?file = "ex_staged\<lparr>current := File\<rparr>"
  have l: "current ex_staged = Link ''/opt/my-app/releases/v1''"
    by code_simp
  have t: "current ?tree = Tree"
    by simp
  have n: "current ?none = NoEntry"
    by simp
  have f: "current ?file = File"
    by simp
  have r0: "\<not> (truthy (Some ''v1'') \<and> release_exists ex_dangling_probed (str_of (Some ''v1'')))"
    by code_simp
  have r1: "truthy (Some ''v1'') \<and> release_exists ex_probed (str_of (Some ''v1''))"
    by code_simp
  have a1: "create_symlink_steps ex_params ex_staged =
        [ex_staged\<lparr>current := NoEntry, trace := Remove (current_link ex_params) # trace ex_staged\<rparr>,
         ex_staged\<lparr>current := Link (release_path ex_params (version ex_params)),
           trace := Symlink (release_path ex_params (version ex_params)) (current_link ex_params)
                    # Remove (current_link ex_params) # trace ex_staged,
           changed := True\<rparr>]"
    and b1: "create_symlink ex_params ex_staged = Inr (last (create_symlink_steps ex_params ex_staged))"
    using switch_removes_then_creates [where w = ex_staged and p = ex_params
            and t = "''/opt/my-app/releases/v1''"] l
    by blast+
  have e1: "[ex_staged\<lparr>current := NoEntry, trace := Remove (current_link ex_params) # trace ex_staged\<rparr>,
         ex_staged\<lparr>current := Link (release_path ex_params (version ex_params)),
           trace := Symlink (release_path ex_params (version ex_params)) (current_link ex_params)
                    # Remove (current_link ex_params) # trace ex_staged,
           changed := True\<rparr>]
       = [ex_staged\<lparr>current := NoEntry, trace := Remove ''/opt/my-app/current'' # trace ex_staged\<rparr>,
          ex_switched]"
    by code_simp
  have c1: "create_symlink_steps ex_params ex_staged
       = [ex_staged\<lparr>current := NoEntry, trace := Remove ''/opt/my-app/current'' # trace ex_staged\<rparr>,
          ex_switched]"
    using a1 e1 by (rule trans)
  have d1: "create_symlink ex_params ex_staged = Inr ex_switched"
    using b1 by (simp add: c1)
  have b2: "create_symlink ex_params ?tree = Inr (last (create_symlink_steps ex_params ?tree))"
    using switch_removes_then_creates [where w = ?tree and p = ex_params] t
    by blast
  have e2: "Inr (last (create_symlink_steps ex_params ?tree))
       = (Inr (ex_switched\<lparr>trace := [Symlink ''/opt/my-app/releases/v2'' ''/opt/my-app/current'',
                                    Rmtree ''/opt/my-app/current''] @ trace ex_staged\<rparr>)
          :: failure \<times> world + world)"
    by code_simp
  have d2: "create_symlink ex_params ?tree
       = Inr (ex_switched\<lparr>trace := [Symlink ''/opt/my-app/releases/v2'' ''/opt/my-app/current'',
                                    Rmtree ''/opt/my-app/current''] @ trace ex_staged\<rparr>)"
    using b2 e2 by (rule trans)
  have b3: "create_symlink ex_params ?none = Inr (last (create_symlink_steps ex_params ?none))"
    using switch_removes_then_creates [where w = ?none and p = ex_params] n
    by blast
  have e3: "Inr (last (create_symlink_steps ex_params ?none))
       = (Inr (ex_switched\<lparr>trace := Symlink ''/opt/my-app/releases/v2'' ''/opt/my-app/current''
                                   # trace ex_staged\<rparr>)
          :: failure \<times> world + world)"
    by code_simp
  have d3: "create_symlink ex_params ?none
       = Inr (ex_switched\<lparr>trace := Symlink ''/opt/my-app/releases/v2'' ''/opt/my-app/current''
                                   # trace ex_staged\<rparr>)"
    using b3 e3 by (rule trans)
  have b4: "create_symlink ex_params ?file =
          Inl (PyException (''[Errno 20] Not a directory: '' @ current_link ex_params),
               ?file\<lparr>trace := Rmtree (current_link ex_params) # trace ?file\<rparr>)"
    using switch_removes_then_creates [where w = ?file and p = ex_params] f
    by blast
  have e4: "Inl (PyException (''[Errno 20] Not a directory: '' @ current_link ex_params),
               ?file\<lparr>trace := Rmtree (current_link ex_params) # trace ?file\<rparr>)
       = (Inl (PyException ''[Errno 20] Not a directory: /opt/my-app/current'',
              ex_staged\<lparr>current := File, trace := Rmtree ''/opt/my-app/current'' # trace ex_staged\<rparr>)
          :: failure \<times> world + world)"
    by code_simp
  have d4: "create_symlink ex_params ?file
       = Inl (PyException ''[Errno 20] Not a directory: /opt/my-app/current'',
              ex_staged\<lparr>current := File, trace := Rmtree ''/opt/my-app/current'' # trace ex_staged\<rparr>)"
    using b4 e4 by (rule trans)
  have d5: "rollback ex_params ex_env (Some ''v1'') ex_dangling_probed = Inr (False, ex_dangling_probed)"
    using switch_removes_then_creates [where w = ex_dangling_probed and p = ex_params
            and previous = "Some ''v1''" and en = ex_env] r0
    by blast
  have b6: "rollback ex_params ex_env_unhealthy (Some ''v1'') ex_probed =
          (case current ex_probed of
             File \<Rightarrow>
               Inl (PyException (''[Errno 20] Not a directory: '' @ current_link ex_params),
                    ex_probed\<lparr>trace := Rmtree (current_link ex_params) # trace ex_probed\<rparr>)
           | _ \<Rightarrow>
               Inr (True,
                    snd (restart_service ex_params ex_env_unhealthy
                           (last (rollback_steps ex_params (str_of (Some ''v1'')) ex_probed)))))"
    using switch_removes_then_creates [where w = ex_probed and p = ex_params
            and previous = "Some ''v1''" and en = ex_env_unhealthy] r1
    by blast
  have e6: "(case current ex_probed of
             File \<Rightarrow>
               Inl (PyException (''[Errno 20] Not a directory: '' @ current_link ex_params),
                    ex_probed\<lparr>trace := Rmtree (current_link ex_params) # trace ex_probed\<rparr>)
           | _ \<Rightarrow>
               Inr (True,
                    snd (restart_service ex_params ex_env_unhealthy
                           (last (rollback_steps ex_params (str_of (Some ''v1'')) ex_probed)))))
        = Inr (True, ex_rolled_back)"
    by code_simp
  have d6: "rollback ex_params ex_env_unhealthy (Some ''v1'') ex_probed = Inr (True, ex_rolled_back)"
    using b6 e6 by (rule trans)
  from r1 have r1a: "truthy (Some ''v1'')"
    and r1b: "release_exists ex_probed (str_of (Some ''v1''))"
    by blast+
  from l c1 d1 t d2 n d3 f d4 r0 d5 r1a r1b d6 show ?thesis
    by (intro conjI)
qed

text \<open>
  C3 as stated fails: in the deployment of \<open>v2\<close> over \<open>v1\<close>, the states that
  \<open>create_symlink\<close> goes through show \<open>current\<close> first absent and then on \<open>v2\<close>, and
  those of the repoint of the rollback show it absent and then on \<open>v1\<close>: each time the
  old link is removed before the new one is made.
\<close>

theorem switch_not_atomic_counterexample:
  "current ex_staged = Link ''/opt/my-app/releases/v1''
   \<and> map current (create_symlink_steps ex_params ex_staged)
       = [NoEntry, Link ''/opt/my-app/releases/v2'']
   \<and> map trace (create_symlink_steps ex_params ex_staged)
       = [Remove ''/opt/my-app/current'' # trace ex_staged,
          Symlink ''/opt/my-app/releases/v2'' ''/opt/my-app/current''
            # Remove ''/opt/my-app/current'' # trace ex_staged]
   \<and> current ex_probed = Link ''/opt/my-app/releases/v2''
   \<and> map current (rollback_steps ex_params ''v1'' ex_probed)
       = [NoEntry, Link ''/opt/my-app/releases/v1'']"
  by code_simp

subsection \<open>Rollback after a failed health check\<close>

text \<open>
  C4, as the code has it. Take a run that is not the already-deployed case and in which
  staging, the switch and the restart succeed. If the health check fails,
  \<open>rollback_on_failure\<close> is set and the version read from the link before the run has
  its directory on disk, then \<open>rollback\<close> returns \<open>True\<close> with \<open>current\<close> a link to
  that directory, which reads back as the previous version. What follows depends on the
  cleanup. If it completes (it does when no deletion raises), the result record has
  \<open>rollback_occurred = True\<close> and \<open>version_deployed\<close> and \<open>previous_version\<close> the
  previous version, and the link is as the rollback left it; the directory it names is
  still on disk only if the previous version is not one of \<open>old_versions\<close>, otherwise
  the cleanup has deleted it and the link dangles. If a deletion raises, \<open>deploy\<close>
  ends with that exception and no result record, the link as the rollback left it. If
  the health check passes and the cleanup completes, \<open>version_deployed\<close> is the target
  version and \<open>rollback_occurred = False\<close>.
\<close>

theorem rollback_after_failed_health_check:
  assumes fresh: "\<not> (release_exists w0 (version p) \<and> get_current_version p w0 = Some (version p))"
      and staged: "download_artifact p en (makedirs_releases p w0) = Inr (ok, w1)"
      and switched: "create_symlink p w1 = Inr w2"
      and restarted: "restart_service p en w2 = (True, w3)"
      and probed: "health_check p en w3 = ((healthy, status), w4)"
  shows "(healthy \<longrightarrow>
            current w4 = Link (release_path p (version p))
            \<and> deploy p en w0 =
                (case cleanup_old_versions p en w4 of
                   Inl f \<Rightarrow> Inl f
                 | Inr w6 \<Rightarrow>
                     Inr (\<lparr>r_changed = changed w6, version_deployed = Some (version p),
                            rollback_occurred = False,
                            deployment_time = clock w6 - deployment_start_time w6,
                            health_check_status = status, previous_version = None\<rparr>, w6))
            \<and> (\<forall>w6. cleanup_old_versions p en w4 = Inr w6 \<longrightarrow> current w6 = current w4))
         \<and> (\<not> healthy \<and> rollback_on_failure p \<and> truthy (get_current_version p w0)
              \<and> release_exists w0 (str_of (get_current_version p w0)) \<longrightarrow>
            (\<exists>w5. rollback p en (get_current_version p w0) w4 = Inr (True, w5)
               \<and> current w5 = Link (release_path p (str_of (get_current_version p w0)))
               \<and> get_current_version p w5 = get_current_version p w0
               \<and> release_exists w5 (str_of (get_current_version p w0))
               \<and> deploy p en w0 =
                   (case cleanup_old_versions p en w5 of
                      Inl f \<Rightarrow> Inl f
                    | Inr w6 \<Rightarrow>
                        Inr (\<lparr>r_changed = changed w6,
                               version_deployed = get_current_version p w0,
                               rollback_occurred = True,
                               deployment_time = clock w6 - deployment_start_time w6,
                               health_check_status =
                                 status @ '' - Rolled back to previous version'',
                               previous_version = get_current_version p w0\<rparr>, w6))
               \<and> (\<forall>w6. cleanup_old_versions p en w5 = Inr w6 \<longrightarrow>
                      current w6 = current w5
                      \<and> get_current_version p w6 = get_current_version p w0
                      \<and> (release_exists w6 (str_of (get_current_version p w0))
                           \<longleftrightarrow> str_of (get_current_version p w0) \<notin> set (old_versions p w5)))
               \<and> (\<forall>f w6. cleanup_old_versions p en w5 = Inl (f, w6) \<longrightarrow>
                      current w6 = current w5 \<and> (\<exists>e. f = PyException e))
               \<and> ((\<forall>h path. \<not> rmtree_fails en h path) \<longrightarrow>
                      (\<exists>w6. cleanup_old_versions p en w5 = Inr w6))))"
proof -
  let ?cv = "get_current_version p w0"
  let ?w = "makedirs_releases p w0"
  have c3: "current w3 = Link (release_path p (version p))" and r3: "releases w3 = releases w1"
    using restart_service_frame [OF restarted] create_symlink_effect [OF switched] by simp_all
  have c4: "current w4 = Link (release_path p (version p))" and r4: "releases w4 = releases w1"
    using health_check_frame [OF probed] c3 r3 by simp_all
  have passed: "current w4 = Link (release_path p (version p))
      \<and> deploy p en w0 =
          (case cleanup_old_versions p en w4 of
             Inl f \<Rightarrow> Inl f
           | Inr w6 \<Rightarrow>
               Inr (\<lparr>r_changed = changed w6, version_deployed = Some (version p),
                      rollback_occurred = False,
                      deployment_time = clock w6 - deployment_start_time w6,
                      health_check_status = status, previous_version = None\<rparr>, w6))
      \<and> (\<forall>w6. cleanup_old_versions p en w4 = Inr w6 \<longrightarrow> current w6 = current w4)"
    if healthy
  proof -
    have "deploy_try p en ?cv ?w = Inr ((False, status), w4)"
      using staged switched restarted probed that by (simp add: deploy_try_def)
    then have "deploy p en w0 = deploy_finish p en ?cv False status w4"
      by (simp add: deploy_unfold [OF fresh] deploy_attempt_def)
    then show ?thesis
      using c4 cleanup_done [of p en w4] by (simp add: deploy_finish_def)
  qed
  have rolled: "\<exists>w5. rollback p en ?cv w4 = Inr (True, w5)
         \<and> current w5 = Link (release_path p (str_of ?cv))
         \<and> get_current_version p w5 = ?cv
         \<and> release_exists w5 (str_of ?cv)
         \<and> deploy p en w0 =
             (case cleanup_old_versions p en w5 of
                Inl f \<Rightarrow> Inl f
              | Inr w6 \<Rightarrow>
                  Inr (\<lparr>r_changed = changed w6, version_deployed = ?cv,
                         rollback_occurred = True,
                         deployment_time = clock w6 - deployment_start_time w6,
                         health_check_status = status @ '' - Rolled back to previous version'',
                         previous_version = ?cv\<rparr>, w6))
         \<and> (\<forall>w6. cleanup_old_versions p en w5 = Inr w6 \<longrightarrow>
                current w6 = current w5
                \<and> get_current_version p w6 = ?cv
                \<and> (release_exists w6 (str_of ?cv) \<longleftrightarrow> str_of ?cv \<notin> set (old_versions p w5)))
         \<and> (\<forall>f w6. cleanup_old_versions p en w5 = Inl (f, w6) \<longrightarrow>
                current w6 = current w5 \<and> (\<exists>e. f = PyException e))
         \<and> ((\<forall>h path. \<not> rmtree_fails en h path) \<longrightarrow>
                (\<exists>w6. cleanup_old_versions p en w5 = Inr w6))"
    if unhealthy: "\<not> healthy" and enabled: "rollback_on_failure p"
      and known: "truthy ?cv" and there: "release_exists w0 (str_of ?cv)"
  proof -
    have e4: "release_exists w4 (str_of ?cv)"
      using there download_artifact_success [OF staged, of "str_of ?cv"]
      by (simp add: makedirs_releases_exists release_exists_cong [OF r4])
    have "current w4 \<noteq> File" using c4 by simp
    from rollback_done [OF known e4 this, of p en]
    obtain w5 where rb: "rollback p en ?cv w4 = Inr (True, w5)"
      and c5: "current w5 = Link (release_path p (str_of ?cv))"
      and r5: "releases w5 = releases w4"
      by blast
    have g5: "get_current_version p w5 = ?cv"
      using current_version_of_release_link [OF known c5] .
    have e5: "release_exists w5 (str_of ?cv)"
      using e4 by (simp add: release_exists_cong [OF r5])
    have "deploy_try p en ?cv ?w =
            Inr ((True, status @ '' - Rolled back to previous version''), w5)"
      using staged switched restarted probed unhealthy enabled rb by (simp add: deploy_try_def)
    then have "deploy p en w0 =
        deploy_finish p en ?cv True (status @ '' - Rolled back to previous version'') w5"
      by (simp add: deploy_unfold [OF fresh] deploy_attempt_def)
    then have d: "deploy p en w0 =
             (case cleanup_old_versions p en w5 of
                Inl f \<Rightarrow> Inl f
              | Inr w6 \<Rightarrow>
                  Inr (\<lparr>r_changed = changed w6, version_deployed = ?cv,
                         rollback_occurred = True,
                         deployment_time = clock w6 - deployment_start_time w6,
                         health_check_status = status @ '' - Rolled back to previous version'',
                         previous_version = ?cv\<rparr>, w6))"
      using known by (simp add: deploy_finish_def)
    have completes: "current w6 = current w5 \<and> get_current_version p w6 = ?cv
          \<and> (release_exists w6 (str_of ?cv) \<longleftrightarrow> str_of ?cv \<notin> set (old_versions p w5))"
      if cl: "cleanup_old_versions p en w5 = Inr w6" for w6
    proof -
      from cleanup_done [OF cl]
      have r6: "releases w6 =
          map_option (filter (\<lambda>(n, d). n \<notin> set (old_versions p w5))) (releases w5)"
        and c6: "current w6 = current w5" by simp_all
      have "release_exists w6 (str_of ?cv)
              \<longleftrightarrow> release_exists w5 (str_of ?cv) \<and> str_of ?cv \<notin> set (old_versions p w5)"
        by (cases "releases w5")
           (simp_all add: release_exists_def entries_def r6 map_of_filter_names)
      moreover have "get_current_version p w6 = ?cv"
        using current_version_of_release_link [OF known, of w6] c6 c5 by simp
      ultimately show ?thesis using c6 e5 by simp
    qed
    have raised: "current w6 = current w5 \<and> (\<exists>e. f = PyException e)"
      if cl: "cleanup_old_versions p en w5 = Inl (f, w6)" for f w6
      using cleanup_raises [OF cl] cleanup_raises_current [OF cl] by blast
    have total: "(\<forall>h path. \<not> rmtree_fails en h path) \<longrightarrow>
                (\<exists>w6. cleanup_old_versions p en w5 = Inr w6)"
      using cleanup_total by blast
    from rb c5 g5 e5 d completes raised total show ?thesis by blast
  qed
  from passed rolled show ?thesis by blast
qed

theorem rollback_after_failed_health_check_witness:
  "\<not> (release_exists ex_world (version ex_params)
        \<and> get_current_version ex_params ex_world = Some (version ex_params))
   \<and> download_artifact ex_params ex_env_unhealthy (makedirs_releases ex_params ex_world)
       = Inr (True, ex_staged)
   \<and> create_symlink ex_params ex_staged = Inr ex_switched
   \<and> restart_service ex_params ex_env_unhealthy ex_switched = (True, ex_restarted)
   \<and> health_check ex_params ex_env_unhealthy ex_restarted
       = ((False, ''Health check failed''), ex_probed)
   \<and> (\<not> False \<and> rollback_on_failure ex_params
        \<and> truthy (get_current_version ex_params ex_world)
        \<and> release_exists ex_world (str_of (get_current_version ex_params ex_world)))
   \<and> get_current_version ex_params ex_world = Some ''v1''
   \<and> rollback ex_params ex_env_unhealthy (Some ''v1'') ex_probed = Inr (True, ex_rolled_back)
   \<and> cleanup_old_versions ex_params ex_env_unhealthy ex_rolled_back = Inr ex_rolled_back
   \<and> deploy ex_params ex_env_unhealthy ex_world
       = Inr (\<lparr>r_changed = True, version_deployed = Some ''v1'', rollback_occurred = True,
               deployment_time = 30,
               health_check_status = ''Health check failed - Rolled back to previous version'',
               previous_version = Some ''v1''\<rparr>, ex_rolled_back)
   \<and> current ex_rolled_back = Link ''/opt/my-app/releases/v1''
   \<and> release_exists ex_rolled_back ''v1''
   \<and> health_check ex_params ex_env ex_restarted = ((True, ''Health check passed''), ex_deployed)
   \<and> cleanup_old_versions ex_params ex_env ex_deployed = Inr ex_deployed
   \<and> deploy ex_params ex_env ex_world
       = Inr (\<lparr>r_changed = True, version_deployed = Some ''v2'', rollback_occurred = False,
               deployment_time = 5, health_check_status = ''Health check passed'',
               previous_version = None\<rparr>, ex_deployed)"
proof -
  have h1: "\<not> (release_exists ex_world (version ex_params)
        \<and> get_current_version ex_params ex_world = Some (version ex_params))"
    by code_simp
  have h2: "download_artifact ex_params ex_env_unhealthy (makedirs_releases ex_params ex_world)
       = Inr (True, ex_staged)"
    by code_simp
  have h3: "create_symlink ex_params ex_staged = Inr ex_switched"
    by code_simp
  have h4: "restart_service ex_params ex_env_unhealthy ex_switched = (True, ex_restarted)"
    by code_simp
  have h5: "health_check ex_params ex_env_unhealthy ex_restarted
       = ((False, ''Health check failed''), ex_probed)"
    by code_simp
  have g2: "download_artifact ex_params ex_env (makedirs_releases ex_params ex_world)
       = Inr (True, ex_staged)"
    by code_simp
  have g4: "restart_service ex_params ex_env ex_switched = (True, ex_restarted)"
    by code_simp
  have g5: "health_check ex_params ex_env ex_restarted = ((True, ''Health check passed''), ex_deployed)"
    by code_simp
  have p: "\<not> False \<and> rollback_on_failure ex_params
        \<and> truthy (get_current_version ex_params ex_world)
        \<and> release_exists ex_world (str_of (get_current_version ex_params ex_world))"
    by code_simp
  have cv: "get_current_version ex_params ex_world = Some ''v1''"
    by code_simp
  have rb: "rollback ex_params ex_env_unhealthy (Some ''v1'') ex_probed = Inr (True, ex_rolled_back)"
    by code_simp
  have cl: "cleanup_old_versions ex_params ex_env_unhealthy ex_rolled_back = Inr ex_rolled_back"
    by code_simp
  have cl': "cleanup_old_versions ex_params ex_env ex_deployed = Inr ex_deployed"
    by code_simp
  have v: "changed ex_rolled_back = True
       \<and> clock ex_rolled_back - deployment_start_time ex_rolled_back = 30
       \<and> changed ex_deployed = True
       \<and> clock ex_deployed - deployment_start_time ex_deployed = 5
       \<and> version ex_params = ''v2''"
    by code_simp
  have c: "current ex_rolled_back = Link ''/opt/my-app/releases/v1''"
    by code_simp
  have e: "release_exists ex_rolled_back ''v1''"
    by code_simp
  from rollback_after_failed_health_check [OF h1 h2 h3 h4 h5] p
  obtain w5 where r5: "rollback ex_params ex_env_unhealthy (get_current_version ex_params ex_world)
                         ex_probed = Inr (True, w5)"
    and d5: "deploy ex_params ex_env_unhealthy ex_world =
               (case cleanup_old_versions ex_params ex_env_unhealthy w5 of
                  Inl f \<Rightarrow> Inl f
                | Inr w6 \<Rightarrow>
                    Inr (\<lparr>r_changed = changed w6,
                           version_deployed = get_current_version ex_params ex_world,
                           rollback_occurred = True,
                           deployment_time = clock w6 - deployment_start_time w6,
                           health_check_status =
                             ''Health check failed'' @ '' - Rolled back to previous version'',
                           previous_version = get_current_version ex_params ex_world\<rparr>, w6))"
    by blast
  from r5 rb have w5: "w5 = ex_rolled_back"
    by (simp add: cv)
  have d1: "deploy ex_params ex_env_unhealthy ex_world
       = Inr (\<lparr>r_changed = True, version_deployed = Some ''v1'', rollback_occurred = True,
               deployment_time = 30,
               health_check_status = ''Health check failed - Rolled back to previous version'',
               previous_version = Some ''v1''\<rparr>, ex_rolled_back)"
    using d5 v by (simp add: w5 cl cv)
  from rollback_after_failed_health_check [OF h1 g2 h3 g4 g5]
  have "deploy ex_params ex_env ex_world =
          (case cleanup_old_versions ex_params ex_env ex_deployed of
             Inl f \<Rightarrow> Inl f
           | Inr w6 \<Rightarrow>
               Inr (\<lparr>r_changed = changed w6, version_deployed = Some (version ex_params),
                      rollback_occurred = False,
                      deployment_time = clock w6 - deployment_start_time w6,
                      health_check_status = ''Health check passed'', previous_version = None\<rparr>, w6))"
    by blast
  then have d2: "deploy ex_params ex_env ex_world
       = Inr (\<lparr>r_changed = True, version_deployed = Some ''v2'', rollback_occurred = False,
               deployment_time = 5, health_check_status = ''Health check passed'',
               previous_version = None\<rparr>, ex_deployed)"
    using v by (simp add: cl')
  from p have p1: "\<not> False" and p2: "rollback_on_failure ex_params"
    and p3: "truthy (get_current_version ex_params ex_world)"
    and p4: "release_exists ex_world (str_of (get_current_version ex_params ex_world))"
    by blast+
  from h1 h2 h3 h4 h5 p1 p2 p3 p4 cv rb cl d1 c e g5 cl' d2 show ?thesis
    by (intro conjI)
qed

text \<open>
  C4 as stated fails in two ways. First, \<open>v2\<close> is deployed over \<open>v1\<close> with
  \<open>keep_versions = 1\<close>, the health check fails, rollback is enabled and \<open>v1\<close> is on
  disk; the rollback succeeds, and then the cleanup cannot delete \<open>releases/v1\<close>: the
  run ends with the exception of \<open>rmtree\<close> and no result record, so there is no
  \<open>rollback_occurred\<close> to read. Second, the same run where the deletion succeeds: the
  record says \<open>rollback_occurred = True\<close> and \<open>version_deployed = v1\<close>, but the
  cleanup of that run has deleted \<open>releases/v1\<close>, and the link names a directory that
  is no longer there.
\<close>

theorem rollback_without_result_counterexample:
  "health_check ex_params_keep_one ex_env_unhealthy_rmtree_fails ex_restarted
     = ((False, ''Health check failed''), ex_probed)
   \<and> rollback_on_failure ex_params_keep_one
   \<and> get_current_version ex_params_keep_one ex_world = Some ''v1''
   \<and> release_exists ex_world ''v1''
   \<and> deploy ex_params_keep_one ex_env_unhealthy_rmtree_fails ex_world
       = Inl (PyException ''rmtree: /opt/my-app/releases/v1'',
              ex_rolled_back\<lparr>trace := Rmtree ''/opt/my-app/releases/v1'' # trace ex_rolled_back\<rparr>)
   \<and> deploy ex_params_keep_one ex_env_unhealthy ex_world
       = Inr (\<lparr>r_changed = True, version_deployed = Some ''v1'', rollback_occurred = True,
               deployment_time = 30,
               health_check_status = ''Health check failed - Rolled back to previous version'',
               previous_version = Some ''v1''\<rparr>,
              ex_rolled_back\<lparr>releases := Some [(''v2'', Directory 100)],
                             trace := Rmtree ''/opt/my-app/releases/v1'' # trace ex_rolled_back\<rparr>)
   \<and> current ex_rolled_back = Link ''/opt/my-app/releases/v1''
   \<and> \<not> release_exists
          (ex_rolled_back\<lparr>releases := Some [(''v2'', Directory 100)],
                           trace := Rmtree ''/opt/my-app/releases/v1'' # trace ex_rolled_back\<rparr>)
          ''v1''"
  by code_simp

subsection \<open>What rollback returns\<close>

text \<open>
  C5. \<open>rollback\<close> returns \<open>False\<close> and touches nothing where the previous version is
  missing or has no directory, and otherwise repoints the link and restarts the service
  (lemmas \<open>rollback_refused\<close> and \<open>rollback_done\<close>). But its result does not say whether
  the restart succeeded: the value of \<open>restart_service\<close> is dropped and \<open>True\<close> is
  returned. Here \<open>v2\<close> is live, \<open>v1\<close> is on disk and \<open>systemctl restart\<close> fails: the
  restart after the repoint returns \<open>False\<close>, \<open>rollback\<close> returns \<open>True\<close>, and a
  deployment in that environment reports \<open>rollback_occurred = True\<close>.
\<close>

theorem rollback_ignores_restart_failure:
  "restart_service ex_params ex_env_restart_fails (last (rollback_steps ex_params ''v1'' ex_probed))
     = (False,
        ex_probed\<lparr>current := Link ''/opt/my-app/releases/v1'',
                    trace := [Run [''systemctl'', ''restart'', ''my-app''],
                              Symlink ''/opt/my-app/releases/v1'' ''/opt/my-app/current'',
                              Remove ''/opt/my-app/current''] @ trace ex_probed\<rparr>)
   \<and> rollback ex_params ex_env_restart_fails (Some ''v1'') ex_probed
     = Inr (True,
        ex_probed\<lparr>current := Link ''/opt/my-app/releases/v1'',
                    trace := [Run [''systemctl'', ''restart'', ''my-app''],
                              Symlink ''/opt/my-app/releases/v1'' ''/opt/my-app/current'',
                              Remove ''/opt/my-app/current''] @ trace ex_probed\<rparr>)
   \<and> map_sum fst fst (deploy ex_params ex_env_restart_fails ex_world)
     = Inr \<lparr>r_changed = True, version_deployed = Some ''v1'', rollback_occurred = True,
            deployment_time = 0,
            health_check_status = ''Deployment failed: Failed to restart service - Rolled back'',
            previous_version = Some ''v1''\<rparr>"
  by code_simp

subsection \<open>A staging that fails\<close>




subsection \<open>Idempotent deploy\<close>

text \<open>
  C7. Where the release directory of the target version exists and the version read from
  the \<open>current\<close> link is the target version, \<open>deploy\<close> returns at once with
  \<open>changed = False\<close> and the health status \<open>Already deployed\<close>. The only call it has made
  is \<open>os.makedirs\<close> on the releases directory, which exists: nothing is staged, switched,
  restarted, probed or rolled back, and the filesystem is as it was.
\<close>

theorem deploy_idempotent:
  assumes "release_exists w (version p)"
      and "get_current_version p w = Some (version p)"
  shows "deploy p en w =
           Inr (\<lparr>r_changed = False, version_deployed = Some (version p),
                  rollback_occurred = False,
                  deployment_time = clock w - deployment_start_time w,
                  health_check_status = ''Already deployed'', previous_version = None\<rparr>,
                w\<lparr>trace := Makedirs (releases_dir p) # trace w\<rparr>)"
proof -
  from assms(1) obtain es where es: "releases w = Some es"
    using release_exists_releases by blast
  then have mk: "makedirs_releases p w = w\<lparr>trace := Makedirs (releases_dir p) # trace w\<rparr>"
    by (simp add: makedirs_releases_def log_def)
  have "release_exists (makedirs_releases p w) (version p)"
    using assms(1) by (simp add: mk release_exists_def entries_def)
  then show ?thesis
    using assms(2) by (simp add: deploy_def Let_def already_deployed_def mk)
qed

theorem deploy_idempotent_witness:
  "release_exists ex_deployed (version ex_params)
   \<and> get_current_version ex_params ex_deployed = Some (version ex_params)
   \<and> deploy ex_params ex_env ex_deployed =
       Inr (\<lparr>r_changed = False, version_deployed = Some ''v2'', rollback_occurred = False,
              deployment_time = 5, health_check_status = ''Already deployed'',
              previous_version = None\<rparr>,
            ex_deployed\<lparr>trace := Makedirs ''/opt/my-app/releases'' # trace ex_deployed\<rparr>)"
proof -
  have h1: "release_exists ex_deployed (version ex_params)"
    by code_simp
  have h2: "get_current_version ex_params ex_deployed = Some (version ex_params)"
    by code_simp
  have v: "version ex_params = ''v2'' \<and> clock ex_deployed - deployment_start_time ex_deployed = 5
       \<and> releases_dir ex_params = ''/opt/my-app/releases''"
    by code_simp
  show ?thesis
    using h1 h2 v deploy_idempotent [OF h1 h2, of ex_env] by simp
qed

subsection \<open>Health check without a URL\<close>

text \<open>
  C8, as the code has it. The health check is off where the URL that reaches the deployer
  is empty or \<open>None\<close>: \<open>health_check\<close> then returns \<open>True\<close> with the status
  \<open>No health check URL provided\<close> and the state untouched, no request sent, and the
  \<open>try\<close> of \<open>deploy\<close> ends after the restart with no rollback. Leaving the option out
  does not do that: the argument spec of \<open>main\<close> puts
  \<open>http://localhost:8080/health\<close> in its place, and with a non-empty URL and a positive
  timeout a probe is sent.
\<close>

theorem health_check_off_only_for_empty_url:
  "(\<not> truthy (health_check_url p) \<longrightarrow>
      health_check p en w = ((True, ''No health check URL provided''), w))
   \<and> (\<not> truthy (health_check_url p) \<and> download_artifact p en w = Inr (ok, w1)
        \<and> create_symlink p w1 = Inr w2 \<and> restart_service p en w2 = (True, w3) \<longrightarrow>
      deploy_try p en cv w = Inr ((False, ''No health check URL provided''), w3))
   \<and> health_check_url (module_params a) =
       (case arg_health_check_url a of
          None \<Rightarrow> Some ''http://localhost:8080/health'' | Some u \<Rightarrow> Some u)
   \<and> (truthy (health_check_url p) \<and> 0 < health_check_timeout p \<longrightarrow>
        (\<exists>t. trace (snd (health_check p en w))
               = t @ HttpGet (str_of (health_check_url p)) # trace w))"
proof -
  have a: "\<not> truthy (health_check_url p) \<Longrightarrow>
      health_check p en w = ((True, ''No health check URL provided''), w)" for w
    by (simp add: health_check_def)
  have b: "deploy_try p en cv w = Inr ((False, ''No health check URL provided''), w3)"
    if "\<not> truthy (health_check_url p)" "download_artifact p en w = Inr (ok, w1)"
       "create_symlink p w1 = Inr w2" "restart_service p en w2 = (True, w3)"
    using that a [of w3] by (simp add: deploy_try_def)
  have c: "health_check_url (module_params a) =
       (case arg_health_check_url a of
          None \<Rightarrow> Some ''http://localhost:8080/health'' | Some u \<Rightarrow> Some u)"
    by (simp add: module_params_def)
  show ?thesis
    using a b c health_check_probes [of p en w] by blast
qed

theorem health_check_off_only_for_empty_url_witness:
  "\<not> truthy (health_check_url ex_params_no_check)
   \<and> health_check ex_params_no_check ex_env_unhealthy ex_restarted
       = ((True, ''No health check URL provided''), ex_restarted)
   \<and> download_artifact ex_params_no_check ex_env_unhealthy ex_started = Inr (True, ex_staged)
   \<and> create_symlink ex_params_no_check ex_staged = Inr ex_switched
   \<and> restart_service ex_params_no_check ex_env_unhealthy ex_switched = (True, ex_restarted)
   \<and> deploy_try ex_params_no_check ex_env_unhealthy (Some ''v1'') ex_started
       = Inr ((False, ''No health check URL provided''), ex_restarted)
   \<and> arg_health_check_url ex_args = None
   \<and> health_check_url (module_params ex_args) = Some ''http://localhost:8080/health''
   \<and> truthy (health_check_url (module_params ex_args))
   \<and> 0 < health_check_timeout (module_params ex_args)"
proof -
  have h1: "\<not> truthy (health_check_url ex_params_no_check)"
    by code_simp
  have h2: "download_artifact ex_params_no_check ex_env_unhealthy ex_started = Inr (True, ex_staged)"
    by code_simp
  have h3: "create_symlink ex_params_no_check ex_staged = Inr ex_switched
       \<and> restart_service ex_params_no_check ex_env_unhealthy ex_switched = (True, ex_restarted)"
    by code_simp
  have h4: "arg_health_check_url ex_args = None"
    by (simp add: ex_args_def)
  have h5: "truthy (health_check_url (module_params ex_args))
       \<and> 0 < health_check_timeout (module_params ex_args)"
    by code_simp
  show ?thesis
    using health_check_off_only_for_empty_url
            [of ex_params_no_check ex_env_unhealthy ex_restarted True ex_staged ex_switched
                ex_restarted "Some ''v1''" ex_args]
          health_check_off_only_for_empty_url
            [of ex_params_no_check ex_env_unhealthy ex_started True ex_staged ex_switched
                ex_restarted "Some ''v1''" ex_args]
          h1 h2 h3 h4 h5
    by simp
qed

text \<open>
  C8 as stated fails for the option left out: with the arguments of \<open>ex_args\<close>, which
  give no \<open>health_check_url\<close>, the default URL is probed twice within the timeout of 20
  seconds, the check fails, and the run as a whole rolls back.
\<close>

theorem omitted_health_url_counterexample:
  "arg_health_check_url ex_args = None
   \<and> health_check (module_params ex_args) ex_env_unhealthy ex_restarted
       = ((False, ''Health check failed''),
          ex_restarted\<lparr>clock := 125,
                       trace := [Sleep 10, HttpGet ''http://localhost:8080/health'',
                                 Sleep 10, HttpGet ''http://localhost:8080/health'']
                                @ trace ex_restarted\<rparr>)
   \<and> map_sum fst fst (main ex_args ex_env_unhealthy ex_world)
       = Inr (Deployed
               \<lparr>r_changed = True, version_deployed = Some ''v1'', rollback_occurred = True,
                deployment_time = 30,
                health_check_status = ''Health check failed - Rolled back to previous version'',
                previous_version = Some ''v1''\<rparr>)"
  by code_simp

subsection \<open>A deletion that fails\<close>




subsection \<open>Staging over an existing directory\<close>

text \<open>
  C10. Where \<open>releases/version\<close> already exists, \<open>download_artifact\<close> returns
  \<open>True\<close> and leaves the state as it is, trace included: no directory is made, no
  command is run, nothing is removed. The module never looks inside the directory, so
  one left by a failed download counts as staged; the witness is the state a failed
  \<open>wget\<close> leaves.
\<close>

theorem download_artifact_existing:
  "release_exists w (version p) \<Longrightarrow> download_artifact p en w = Inr (True, w)"
  by (simp add: download_artifact_def)

theorem download_artifact_existing_witness:
  "download_artifact ex_params ex_env_wget_fails ex_started
     = Inl (FailJson ''Failed to download artifact: 404 Not Found'', ex_leftover)
   \<and> release_exists ex_leftover (version ex_params)
   \<and> download_artifact ex_params ex_env ex_leftover = Inr (True, ex_leftover)"
proof -
  have h: "release_exists ex_leftover (version ex_params)"
    by code_simp
  have left: "download_artifact ex_params ex_env_wget_fails ex_started
     = Inl (FailJson ''Failed to download artifact: 404 Not Found'', ex_leftover)"
    by code_simp
  show ?thesis
    using h left download_artifact_existing [OF h, of ex_env] by simp
qed

end
